theory Spec2Isabelle
  imports Complex_Main "HOL-Library.AList"
begin

section \<open>Python values and exceptions\<close>

text \<open>
  The aggregation functions of \<^verbatim>\<open>tasks/spotify_tasks.py\<close> work on Python floats. They are
  modelled as real numbers: comparisons against decimal literals, sums and quotients are taken
  exactly, and the rounding to three decimals is taken on the real value, with the direction
  at a midpoint left open. Every operation of the source that can raise returns a sum:
  \<open>Inl\<close> carries the exception, \<open>Inr\<close> the value.
\<close>

datatype py_exception =
    ValueError string
  | StatisticsError string
  | ZeroDivisionError string
  | ExternalError string
  | TypeError string
  | KeyError string
  | IntegrityError string
  | PendingRollbackError string

text \<open>\<^verbatim>\<open>str(e)\<close>: the message the exception was built with.\<close>

fun str_exn :: "py_exception \<Rightarrow> string" where
  "str_exn (ValueError m) = m"
| "str_exn (StatisticsError m) = m"
| "str_exn (ZeroDivisionError m) = m"
| "str_exn (ExternalError m) = m"
| "str_exn (TypeError m) = m"
| "str_exn (KeyError m) = m"
| "str_exn (IntegrityError m) = m"
| "str_exn (PendingRollbackError m) = m"

definition py_truediv :: "real \<Rightarrow> real \<Rightarrow> py_exception + real" where
  "py_truediv a b = (if b = 0 then Inl (ZeroDivisionError ''division by zero'') else Inr (a / b))"

definition math_log2 :: "real \<Rightarrow> py_exception + real" where
  "math_log2 x = (if x \<le> 0 then Inl (ValueError ''math domain error'') else Inr (log 2 x))"

text \<open>
  \<^verbatim>\<open>round(x, 3)\<close>: the nearest multiple of one thousandth. When the real number \<open>x\<close> lies
  exactly halfway between two thousandths, Python rounds the double that stands for \<open>x\<close>, and
  that double may lie on either side of the midpoint (\<^verbatim>\<open>round(1/80, 3)\<close> is 0.013 and
  \<^verbatim>\<open>round(3/80, 3)\<close> is 0.037) or on it (\<^verbatim>\<open>round(1/16, 3)\<close> is 0.062). Reals do not
  decide this, so the direction taken at a midpoint is the parameter \<open>tie_up\<close>, and whatever is
  proved below is proved for every such parameter.
\<close>

definition py_round3 :: "(real \<Rightarrow> bool) \<Rightarrow> real \<Rightarrow> real" where
  "py_round3 tie_up x =
     (let y = x * 1000; n = \<lfloor>y\<rfloor>; d = y - of_int n
      in of_int (if d < 1 / 2 then n else if 1 / 2 < d then n + 1
                 else if tie_up x then n + 1 else n) / 1000)"

definition statistics_mean :: "real list \<Rightarrow> py_exception + real" where
  "statistics_mean xs =
     (if xs = [] then Inl (StatisticsError ''mean requires at least one data point'')
      else Inr (sum_list xs / real (length xs)))"

definition statistics_stdev :: "real list \<Rightarrow> py_exception + real" where
  "statistics_stdev xs =
     (if length xs < 2 then Inl (StatisticsError ''variance requires at least two data points'')
      else let m = sum_list xs / real (length xs)
           in Inr (sqrt (sum_list (map (\<lambda>x. (x - m)\<^sup>2) xs) / real (length xs - 1))))"

fun py_min :: "real list \<Rightarrow> py_exception + real" where
  "py_min [] = Inl (ValueError ''min() arg is an empty sequence'')"
| "py_min (x # xs) = Inr (fold min xs x)"

fun py_max :: "real list \<Rightarrow> py_exception + real" where
  "py_max [] = Inl (ValueError ''max() arg is an empty sequence'')"
| "py_max (x # xs) = Inr (fold max xs x)"

section \<open>Aggregation engine\<close>

subsection \<open>Feature statistics\<close>

text \<open>A per-track audio-feature record is a dictionary from feature names to numbers.\<close>

type_synonym track_features = "string \<rightharpoonup> real"

definition features_to_analyze :: "string list" where
  "features_to_analyze =
     [''valence'', ''energy'', ''danceability'', ''acousticness'',
      ''instrumentalness'', ''speechiness'', ''tempo'', ''loudness'']"

text \<open>\<^verbatim>\<open>[f[feature] for f in audio_features if feature in f]\<close>\<close>

definition feature_values :: "string \<Rightarrow> track_features list \<Rightarrow> real list" where
  "feature_values feature audio_features = List.map_filter (\<lambda>f. f feature) audio_features"

text \<open>The body of the loop over \<open>features_to_analyze\<close>, with the dictionary \<open>stats\<close> threaded.\<close>

fun stats_loop ::
  "string list \<Rightarrow> track_features list \<Rightarrow> (string \<rightharpoonup> real) \<Rightarrow> py_exception + (string \<rightharpoonup> real)"
where
  "stats_loop [] audio_features stats = Inr stats"
| "stats_loop (feature # rest) audio_features stats =
     (let vals = feature_values feature audio_features in
      if vals \<noteq> [] then
        (case statistics_mean vals of Inl e \<Rightarrow> Inl e | Inr avg \<Rightarrow>
        (case (if 1 < length vals then statistics_stdev vals else Inr 0) of Inl e \<Rightarrow> Inl e | Inr std \<Rightarrow>
        (case py_min vals of Inl e \<Rightarrow> Inl e | Inr lo \<Rightarrow>
        (case py_max vals of Inl e \<Rightarrow> Inl e | Inr hi \<Rightarrow>
           stats_loop rest audio_features
             (stats(''avg_'' @ feature \<mapsto> avg, ''std_'' @ feature \<mapsto> std,
                    ''min_'' @ feature \<mapsto> lo, ''max_'' @ feature \<mapsto> hi))))))
      else stats_loop rest audio_features stats)"

definition calculate_audio_feature_stats ::
  "track_features list \<Rightarrow> py_exception + (string \<rightharpoonup> real)"
where
  "calculate_audio_feature_stats audio_features =
     (if audio_features = [] then Inr Map.empty
      else stats_loop features_to_analyze audio_features Map.empty)"

subsection \<open>Genre distribution\<close>

text \<open>
  An artist is a dictionary of which the engine reads only \<^verbatim>\<open>artist.get("genres", [])\<close>; the
  key may be missing.
\<close>

record artist =
  artist_id :: string
  artist_genres :: "string list option"

text \<open>
  \<^verbatim>\<open>genre_counts\<close> keeps insertion order, so it is an association list: a known genre is
  updated in place, a new one is appended.
\<close>

fun count_genres ::
  "string list \<Rightarrow> (string \<times> nat) list \<times> nat \<Rightarrow> (string \<times> nat) list \<times> nat"
where
  "count_genres [] acc = acc"
| "count_genres (genre # rest) (genre_counts, total_genres) =
     count_genres rest
       (AList.update genre (case map_of genre_counts genre of None \<Rightarrow> 0 + 1 | Some c \<Rightarrow> c + 1)
          genre_counts,
        total_genres + 1)"

fun count_artists ::
  "artist list \<Rightarrow> (string \<times> nat) list \<times> nat \<Rightarrow> (string \<times> nat) list \<times> nat"
where
  "count_artists [] acc = acc"
| "count_artists (a # rest) acc =
     count_artists rest
       (count_genres (case artist_genres a of None \<Rightarrow> [] | Some gs \<Rightarrow> gs) acc)"

text \<open>The dictionary comprehension \<^verbatim>\<open>{genre: round(count / total_genres, 3) ...}\<close>.\<close>

fun normalize_counts ::
  "(real \<Rightarrow> bool) \<Rightarrow> (string \<times> nat) list \<Rightarrow> nat \<Rightarrow> py_exception + (string \<times> real) list"
where
  "normalize_counts tie_up [] total_genres = Inr []"
| "normalize_counts tie_up ((genre, cnt) # rest) total_genres =
     (case py_truediv (real cnt) (real total_genres) of Inl e \<Rightarrow> Inl e | Inr q \<Rightarrow>
     (case normalize_counts tie_up rest total_genres of Inl e \<Rightarrow> Inl e | Inr ds \<Rightarrow>
        Inr ((genre, py_round3 tie_up q) # ds)))"

text \<open>
  \<^verbatim>\<open>sorted(items, key=lambda x: x[1], reverse=True)\<close> is a stable sort by descending
  fraction: equal fractions keep their order of insertion.
\<close>

definition sorted_desc :: "(string \<times> real) list \<Rightarrow> (string \<times> real) list" where
  "sorted_desc items = sort_key (\<lambda>x. - snd x) items"

definition extract_genre_distribution ::
  "(real \<Rightarrow> bool) \<Rightarrow> artist list \<Rightarrow> py_exception + (string \<times> real) list" where
  "extract_genre_distribution tie_up artists =
     (case count_artists artists ([], 0) of (genre_counts, total_genres) \<Rightarrow>
        if total_genres = 0 then Inr []
        else (case normalize_counts tie_up genre_counts total_genres of Inl e \<Rightarrow> Inl e
              | Inr genre_distribution \<Rightarrow> Inr (take 10 (sorted_desc genre_distribution))))"

subsection \<open>Mood patterns\<close>

text \<open>\<^verbatim>\<open>d.get(key, default)\<close>\<close>

definition dict_get :: "('k \<rightharpoonup> 'v) \<Rightarrow> 'k \<Rightarrow> 'v \<Rightarrow> 'v" where
  "dict_get d k dflt = (case d k of None \<Rightarrow> dflt | Some v \<Rightarrow> v)"

definition mood_counts_init :: "(string \<times> nat) list" where
  "mood_counts_init =
     [(''happy'', 0), (''sad'', 0), (''energetic'', 0), (''calm'', 0), (''focused'', 0),
      (''other'', 0)]"

text \<open>\<^verbatim>\<open>mood_counts[mood] += 1\<close>, on a dictionary that holds the six keys from the start.\<close>

definition incr :: "string \<Rightarrow> (string \<times> nat) list \<Rightarrow> (string \<times> nat) list" where
  "incr mood mood_counts = map (\<lambda>(k, c). if k = mood then (k, c + 1) else (k, c)) mood_counts"

text \<open>
  One iteration of the loop over the tracks: three independent \<^verbatim>\<open>if\<close>/\<^verbatim>\<open>elif\<close> groups and
  the flag \<^verbatim>\<open>categorized\<close>.
\<close>

definition mood_step :: "track_features \<Rightarrow> (string \<times> nat) list \<Rightarrow> (string \<times> nat) list" where
  "mood_step features mood_counts =
     (let valence = dict_get features ''valence'' 0.5;
          energy = dict_get features ''energy'' 0.5;
          danceability = dict_get features ''danceability'' 0.5;
          acousticness = dict_get features ''acousticness'' 0.5;
          speechiness = dict_get features ''speechiness'' 0.5;
          (mc1, cat1) =
            (if valence > 0.6 \<and> energy > 0.6 then (incr ''happy'' mood_counts, True)
             else if valence < 0.4 \<and> energy < 0.5 then (incr ''sad'' mood_counts, True)
             else (mood_counts, False));
          (mc2, cat2) =
            (if energy > 0.7 \<and> danceability > 0.6 then (incr ''energetic'' mc1, True)
             else if energy < 0.4 \<and> acousticness > 0.5 then (incr ''calm'' mc1, True)
             else (mc1, cat1));
          (mc3, cat3) =
            (if speechiness < 0.3 \<and> 0.3 \<le> energy \<and> energy \<le> 0.7 then (incr ''focused'' mc2, True)
             else (mc2, cat2))
      in if \<not> cat3 then incr ''other'' mc3 else mc3)"

record mood_entry =
  percentage :: real
  track_count :: nat

text \<open>The comprehension over \<^verbatim>\<open>mood_counts.items()\<close> with its filter \<^verbatim>\<open>if count > 0\<close>.\<close>

fun mood_entries ::
  "(real \<Rightarrow> bool) \<Rightarrow> (string \<times> nat) list \<Rightarrow> nat \<Rightarrow> py_exception + (string \<times> mood_entry) list" where
  "mood_entries tie_up [] total_tracks = Inr []"
| "mood_entries tie_up ((mood, cnt) # rest) total_tracks =
     (if cnt > 0 then
        (case py_truediv (real cnt) (real total_tracks) of Inl e \<Rightarrow> Inl e | Inr q \<Rightarrow>
        (case mood_entries tie_up rest total_tracks of Inl e \<Rightarrow> Inl e | Inr es \<Rightarrow>
           Inr ((mood, \<lparr>percentage = py_round3 tie_up q, track_count = cnt\<rparr>) # es)))
      else mood_entries tie_up rest total_tracks)"

definition calculate_mood_patterns ::
  "(real \<Rightarrow> bool) \<Rightarrow> track_features list \<Rightarrow> py_exception + (string \<times> mood_entry) list"
where
  "calculate_mood_patterns tie_up audio_features =
     (let mood_counts = fold mood_step audio_features mood_counts_init;
          total_tracks = length audio_features
      in if total_tracks = 0 then Inr [] else mood_entries tie_up mood_counts total_tracks)"

subsection \<open>Diversity scores\<close>

record diversity_scores =
  artist_diversity_score :: real
  mood_diversity_score :: real

text \<open>The loop over \<^verbatim>\<open>genres.values()\<close> that accumulates \<^verbatim>\<open>genre_entropy\<close>.\<close>

fun entropy_loop :: "real list \<Rightarrow> real \<Rightarrow> py_exception + real" where
  "entropy_loop [] genre_entropy = Inr genre_entropy"
| "entropy_loop (p # rest) genre_entropy =
     (if p > 0 then
        (case math_log2 p of Inl e \<Rightarrow> Inl e
         | Inr l \<Rightarrow> entropy_loop rest (genre_entropy - p * l))
      else entropy_loop rest genre_entropy)"

definition calculate_diversity_scores ::
  "(real \<Rightarrow> bool) \<Rightarrow> artist list \<Rightarrow> (string \<times> real) list \<Rightarrow> py_exception + diversity_scores"
where
  "calculate_diversity_scores tie_up artists genres =
     (let artist_diversity = min (real (length artists) / 50.0) 1.0 in
      case (if genres \<noteq> [] then entropy_loop (map snd genres) 0.0 else Inr 0.0) of
        Inl e \<Rightarrow> Inl e
      | Inr genre_entropy \<Rightarrow>
          let mood_diversity = (if genre_entropy > 0 then min (genre_entropy / 3.32) 1.0 else 0.0)
          in Inr \<lparr>artist_diversity_score = py_round3 tie_up artist_diversity,
                  mood_diversity_score = py_round3 tie_up mood_diversity\<rparr>)"

section \<open>Stored rows\<close>

text \<open>
  The tables of \<^verbatim>\<open>database_models.py\<close> that the tasks read and write. A UUID is kept as its
  canonical string; of a row of \<^verbatim>\<open>users\<close> only the primary key matters here. An instant is a
  natural number.
\<close>

type_synonym uuid = string

datatype time_range = SHORT_TERM | MEDIUM_TERM | LONG_TERM

text \<open>
  \<^verbatim>\<open>TimeRange(value)\<close> raises \<^verbatim>\<open>ValueError\<close> on a string that is no member of the enum; the
  message quotes the value.
\<close>

definition TimeRange :: "string \<Rightarrow> py_exception + time_range" where
  "TimeRange v =
     (if v = ''short_term'' then Inr SHORT_TERM
      else if v = ''medium_term'' then Inr MEDIUM_TERM
      else if v = ''long_term'' then Inr LONG_TERM
      else Inl (ValueError ([CHR 0x27] @ v @ [CHR 0x27] @ '' is not a valid TimeRange'')))"

datatype insight_type = ROAST | WELLNESS | PRODUCTIVITY

text \<open>
  A Python \<^verbatim>\<open>datetime\<close> is naive or aware of its time zone. \<^verbatim>\<open>datetime.now()\<close> without an
  argument is naive; a column declared \<^verbatim>\<open>DateTime(timezone=True)\<close> is read back from
  PostgreSQL as an aware value. Ordering a naive against an aware value raises \<^verbatim>\<open>TypeError\<close>.
\<close>

datatype py_datetime = Naive nat | Aware nat

fun datetime_le :: "py_datetime \<Rightarrow> py_datetime \<Rightarrow> py_exception + bool" where
  "datetime_le (Naive a) (Naive b) = Inr (a \<le> b)"
| "datetime_le (Aware a) (Aware b) = Inr (a \<le> b)"
| "datetime_le (Naive a) (Aware b) =
     Inl (TypeError (''can'' @ [CHR 0x27] @ ''t compare offset-naive and offset-aware datetimes''))"
| "datetime_le (Aware a) (Naive b) =
     Inl (TypeError (''can'' @ [CHR 0x27] @ ''t compare offset-naive and offset-aware datetimes''))"

record spotify_token =
  token_user_id :: uuid
  access_token :: string
  refresh_token :: string
  expires_at :: nat

record listening_snapshot =
  snapshot_id :: uuid
  snapshot_user_id :: uuid
  snapshot_time_range :: time_range
  snapshot_audio_features :: "string \<rightharpoonup> real"
  snapshot_genre_distribution :: "(string \<times> real) list"
  snapshot_mood_patterns :: "(string \<times> mood_entry) list"
  snapshot_artist_diversity :: real
  snapshot_mood_diversity :: real
  total_tracks_analyzed :: nat

record generated_insight =
  insight_id :: uuid
  insight_user_id :: uuid
  insight_snapshot_id :: uuid
  insight_kind :: insight_type
  llm_model :: string
  prompt_version :: string
  tone_mode :: string
  content :: string
  structured_output :: string

datatype json = JStr string | JNum nat

text \<open>
  A row of \<^verbatim>\<open>background_jobs\<close>. The column \<open>status\<close> is a string whose default is
  \<^verbatim>\<open>"pending"\<close>; \<open>celery_task_id\<close> is declared unique and \<open>job_user_id\<close> is a foreign key
  into \<^verbatim>\<open>users\<close>. The field \<open>status_writes\<close> is not a column: it lists, in order, every value
  the task has given to \<open>status\<close>, the constructor's argument first. Each assignment in the
  tasks is followed by its own \<^verbatim>\<open>db.commit()\<close>, so for a stored row this is the sequence of
  committed values. The timestamps of a job are left out: no task branches on them.
\<close>

record background_job =
  job_type :: string
  celery_task_id :: string
  job_user_id :: "uuid option"
  status :: string
  params :: "(string \<times> string) list"
  job_result :: "(string \<times> json) list"
  error_message :: "string option"
  status_writes :: "string list"

record db_state =
  users :: "uuid list"
  background_jobs :: "background_job list"
  spotify_tokens :: "spotify_token list"
  listening_snapshots :: "listening_snapshot list"
  generated_insights :: "generated_insight list"

section \<open>The outside world\<close>

text \<open>
  What a task cannot decide by itself is read from a record of outcomes: the parse of an
  identifier, the clock, the answers of the music service, of its OAuth endpoint and of the
  language model, the identifiers the store gives to new rows, and the direction in which the
  floating-point rounding falls at a midpoint.
\<close>

record token_info =
  info_access_token :: string
  info_expires_in :: nat
  info_refresh_token :: "string option"

record llm_output =
  llm_content :: string
  llm_structured :: string

record world =
  uuid_parse :: "string \<Rightarrow> uuid option"
  now :: nat
  refresh_access_token :: "string \<Rightarrow> py_exception + token_info"
  current_user_top_tracks :: "string \<Rightarrow> string \<Rightarrow> py_exception + string list"
  current_user_top_artists :: "string \<Rightarrow> string \<Rightarrow> py_exception + artist list"
  audio_features_of :: "string \<Rightarrow> string list \<Rightarrow> py_exception + track_features list"
  new_row_id :: "nat \<Rightarrow> uuid"
  openai_api_key :: "string option"
  format_snapshot_for_llm :: "listening_snapshot \<Rightarrow> string"
  llm_answer :: "insight_type \<Rightarrow> string \<Rightarrow> string \<Rightarrow> py_exception + llm_output"
  float_ties :: "real \<Rightarrow> bool"

text \<open>\<^verbatim>\<open>uuid.UUID(s)\<close>\<close>

definition UUID :: "world \<Rightarrow> string \<Rightarrow> py_exception + uuid" where
  "UUID w s =
     (case uuid_parse w s of
        None \<Rightarrow> Inl (ValueError ''badly formed hexadecimal UUID string'')
      | Some u \<Rightarrow> Inr u)"

text \<open>\<^verbatim>\<open>datetime.now()\<close>\<close>

definition datetime_now :: "world \<Rightarrow> py_datetime" where
  "datetime_now w = Naive (now w)"

section \<open>Retry policy of the task classes\<close>

text \<open>
  A task class carries \<^verbatim>\<open>autoretry_for\<close>, a tuple of exception classes, and \<^verbatim>\<open>retry_kwargs\<close>.
  Every exception of the model is an instance of \<^verbatim>\<open>Exception\<close>.
\<close>

fun isinstance_Exception :: "py_exception \<Rightarrow> bool" where
  "isinstance_Exception (ValueError m) = True"
| "isinstance_Exception (StatisticsError m) = True"
| "isinstance_Exception (ZeroDivisionError m) = True"
| "isinstance_Exception (ExternalError m) = True"
| "isinstance_Exception (TypeError m) = True"
| "isinstance_Exception (KeyError m) = True"
| "isinstance_Exception (IntegrityError m) = True"
| "isinstance_Exception (PendingRollbackError m) = True"

record task_class =
  autoretry_for :: "py_exception \<Rightarrow> bool"
  max_retries :: nat
  countdown :: nat
  retry_backoff :: bool

definition SpotifyTask :: task_class where
  "SpotifyTask =
     \<lparr>autoretry_for = isinstance_Exception, max_retries = 3, countdown = 60, retry_backoff = True\<rparr>"

definition InsightTask :: task_class where
  "InsightTask =
     \<lparr>autoretry_for = isinstance_Exception, max_retries = 2, countdown = 30, retry_backoff = True\<rparr>"

text \<open>
  What the queue does with the result of one run of a task body that is at its
  \<open>retries\<close>-th retry: an exception matched by \<^verbatim>\<open>autoretry_for\<close> schedules another run while
  the budget \<^verbatim>\<open>max_retries\<close> lasts, and is final afterwards. The run that is scheduled keeps
  the task id of the first one.
\<close>

datatype 'a task_outcome = Succeeded 'a | Retried py_exception | GaveUp py_exception

definition run_task :: "task_class \<Rightarrow> nat \<Rightarrow> py_exception + 'a \<Rightarrow> 'a task_outcome" where
  "run_task cls retries res =
     (case res of
        Inr v \<Rightarrow> Succeeded v
      | Inl e \<Rightarrow>
          if autoretry_for cls e \<and> retries < max_retries cls then Retried e else GaveUp e)"

fun is_retried :: "'a task_outcome \<Rightarrow> bool" where
  "is_retried (Retried e) = True"
| "is_retried (Succeeded v) = False"
| "is_retried (GaveUp e) = False"

section \<open>Job records\<close>

text \<open>
  \<^verbatim>\<open>db.add(job); db.commit()\<close> of a new job row. The store refuses the insert, and the commit
  raises \<^verbatim>\<open>IntegrityError\<close>, when another row already has the same \<open>celery_task_id\<close> or when
  \<open>job_user_id\<close> names no row of \<^verbatim>\<open>users\<close>.
\<close>

definition insert_job :: "background_job \<Rightarrow> db_state \<Rightarrow> py_exception + db_state" where
  "insert_job job db =
     (if celery_task_id job \<in> set (map celery_task_id (background_jobs db)) then
        Inl (IntegrityError ''duplicate key value violates unique constraint'')
      else if (case job_user_id job of None \<Rightarrow> False | Some u \<Rightarrow> u \<notin> set (users db)) then
        Inl (IntegrityError ''insert violates foreign key constraint'')
      else Inr (db\<lparr>background_jobs := background_jobs db @ [job]\<rparr>))"

text \<open>\<^verbatim>\<open>db.commit()\<close> of a stored job row whose fields were assigned.\<close>

definition commit_job :: "nat \<Rightarrow> background_job \<Rightarrow> db_state \<Rightarrow> db_state" where
  "commit_job ix job db = db\<lparr>background_jobs := (background_jobs db)[ix := job]\<rparr>"

text \<open>
  \<^verbatim>\<open>job.status = "failed"; job.error_message = msg; job.completed_at = datetime.now()\<close>
\<close>

definition mark_failed :: "string \<Rightarrow> background_job \<Rightarrow> background_job" where
  "mark_failed msg job =
     job\<lparr>status := ''failed'', error_message := Some msg,
         status_writes := status_writes job @ [''failed'']\<rparr>"

text \<open>\<^verbatim>\<open>job.status = "success"; job.completed_at = datetime.now(); job.result = r\<close>\<close>

definition mark_success :: "(string \<times> json) list \<Rightarrow> background_job \<Rightarrow> background_job" where
  "mark_success r job =
     job\<lparr>status := ''success'', job_result := r,
         status_writes := status_writes job @ [''success'']\<rparr>"

text \<open>
  The local name \<^verbatim>\<open>job\<close> at the moment a \<^verbatim>\<open>try\<close> block is left: not bound yet; bound to an
  object whose insert the store refused, which leaves the session waiting for a rollback; or
  bound to the stored row of the given index.
\<close>

datatype job_binding =
    Unbound
  | Refused background_job
  | Stored nat background_job

text \<open>
  The \<^verbatim>\<open>except Exception as e\<close> clause the three tracked tasks share. When the name \<^verbatim>\<open>job\<close>
  is bound, the object is set to failed with \<^verbatim>\<open>str(e)\<close> and \<^verbatim>\<open>db.commit()\<close> is called: for a
  stored row this writes the row and the exception is raised again; after a refused insert
  nothing was rolled back, so this commit raises \<^verbatim>\<open>PendingRollbackError\<close> out of the clause and
  the store is left as it was. The \<^verbatim>\<open>finally\<close> clause closes the session and writes nothing.
\<close>

definition except_handler ::
  "db_state \<times> job_binding \<times> (py_exception + 'a) \<Rightarrow> db_state \<times> (py_exception + 'a)"
where
  "except_handler r =
     (case r of
        (db, job, Inr v) \<Rightarrow> (db, Inr v)
      | (db, Unbound, Inl e) \<Rightarrow> (db, Inl e)
      | (db, Refused job, Inl e) \<Rightarrow>
          (db, Inl (PendingRollbackError
                      ''This Session's transaction has been rolled back due to a previous exception during flush''))
      | (db, Stored ix job, Inl e) \<Rightarrow> (commit_job ix (mark_failed (str_exn e) job) db, Inl e))"

section \<open>Ingestion task\<close>

fun update_first :: "('a \<Rightarrow> bool) \<Rightarrow> ('a \<Rightarrow> 'a) \<Rightarrow> 'a list \<Rightarrow> 'a list" where
  "update_first P f [] = []"
| "update_first P f (x # xs) = (if P x then f x # xs else x # update_first P f xs)"

text \<open>
  \<^verbatim>\<open>refresh_spotify_token\<close>: every exception inside is caught and turned into \<^verbatim>\<open>None\<close>; on
  success the credential row is updated in place and the new access token returned.
\<close>

definition refresh_spotify_token :: "world \<Rightarrow> string \<Rightarrow> db_state \<Rightarrow> db_state \<times> string option" where
  "refresh_spotify_token w user_id db =
     (case UUID w user_id of
        Inl e \<Rightarrow> (db, None)
      | Inr user_uuid \<Rightarrow>
          (case find (\<lambda>t. token_user_id t = user_uuid) (spotify_tokens db) of
             None \<Rightarrow> (db, None)
           | Some token_record \<Rightarrow>
               (case refresh_access_token w (refresh_token token_record) of
                  Inl e \<Rightarrow> (db, None)
                | Inr info \<Rightarrow>
                    (db\<lparr>spotify_tokens :=
                         update_first (\<lambda>t. token_user_id t = user_uuid)
                           (\<lambda>t. t\<lparr>access_token := info_access_token info,
                                   expires_at := now w + info_expires_in info,
                                   refresh_token :=
                                     (case info_refresh_token info of
                                        None \<Rightarrow> refresh_token t
                                      | Some r \<Rightarrow> r)\<rparr>)
                           (spotify_tokens db)\<rparr>,
                     Some (info_access_token info)))))"

record ingest_result =
  result_snapshot_id :: uuid
  result_user_id :: string
  result_time_range :: string
  tracks_analyzed :: nat
  artists_analyzed :: nat

text \<open>
  The part of the \<^verbatim>\<open>try\<close> block of \<^verbatim>\<open>ingest_listening_data\<close> that follows the credential
  checks: the three fetches, the aggregation, the snapshot row and the success write.
\<close>

definition ingest_fetch_and_store ::
  "world \<Rightarrow> db_state \<Rightarrow> nat \<times> background_job \<Rightarrow> string \<Rightarrow> uuid \<Rightarrow> string \<Rightarrow> string \<Rightarrow>
   db_state \<times> job_binding \<times> (py_exception + ingest_result)"
where
  "ingest_fetch_and_store w db j user_id user_uuid time_range_arg token =
     (case current_user_top_tracks w token time_range_arg of
        Inl e \<Rightarrow> (db, Stored (fst j) (snd j), Inl e)
      | Inr top_tracks \<Rightarrow>
     (case current_user_top_artists w token time_range_arg of
        Inl e \<Rightarrow> (db, Stored (fst j) (snd j), Inl e)
      | Inr top_artists \<Rightarrow>
     (case audio_features_of w token top_tracks of
        Inl e \<Rightarrow> (db, Stored (fst j) (snd j), Inl e)
      | Inr feats \<Rightarrow>
     (case calculate_audio_feature_stats feats of
        Inl e \<Rightarrow> (db, Stored (fst j) (snd j), Inl e)
      | Inr audio_stats \<Rightarrow>
     (case extract_genre_distribution (float_ties w) top_artists of
        Inl e \<Rightarrow> (db, Stored (fst j) (snd j), Inl e)
      | Inr genre_dist \<Rightarrow>
     (case calculate_mood_patterns (float_ties w) feats of
        Inl e \<Rightarrow> (db, Stored (fst j) (snd j), Inl e)
      | Inr moods \<Rightarrow>
     (case calculate_diversity_scores (float_ties w) top_artists genre_dist of
        Inl e \<Rightarrow> (db, Stored (fst j) (snd j), Inl e)
      | Inr scores \<Rightarrow>
     (case TimeRange time_range_arg of
        Inl e \<Rightarrow> (db, Stored (fst j) (snd j), Inl e)
      | Inr tr \<Rightarrow>
          (let snapshot =
                 \<lparr>snapshot_id = new_row_id w (length (listening_snapshots db)),
                  snapshot_user_id = user_uuid,
                  snapshot_time_range = tr,
                  snapshot_audio_features = audio_stats,
                  snapshot_genre_distribution = genre_dist,
                  snapshot_mood_patterns = moods,
                  snapshot_artist_diversity = artist_diversity_score scores,
                  snapshot_mood_diversity = mood_diversity_score scores,
                  total_tracks_analyzed = length top_tracks\<rparr>;
               db1 = db\<lparr>listening_snapshots := listening_snapshots db @ [snapshot]\<rparr>;
               job1 =
                 mark_success
                   [(''snapshot_id'', JStr (snapshot_id snapshot)),
                    (''tracks_analyzed'', JNum (length top_tracks)),
                    (''artists_analyzed'', JNum (length top_artists))]
                   (snd j);
               db2 = commit_job (fst j) job1 db1
           in (db2, Stored (fst j) job1,
               Inr \<lparr>result_snapshot_id = snapshot_id snapshot, result_user_id = user_id,
                    result_time_range = time_range_arg, tracks_analyzed = length top_tracks,
                    artists_analyzed = length top_artists\<rparr>))))))))))"

text \<open>
  The \<^verbatim>\<open>try\<close> block of \<^verbatim>\<open>ingest_listening_data\<close>. It returns the store, the binding of the
  local name \<^verbatim>\<open>job\<close> and the value returned or the exception raised. The user id is parsed
  inside the constructor call of the job, so a malformed id raises before \<^verbatim>\<open>job\<close> is bound.
  The expiry test compares the aware column value with the naive \<^verbatim>\<open>datetime.now()\<close>.
\<close>

definition ingest_try ::
  "world \<Rightarrow> db_state \<Rightarrow> string \<Rightarrow> string \<Rightarrow> string \<Rightarrow>
   db_state \<times> job_binding \<times> (py_exception + ingest_result)"
where
  "ingest_try w db task_id user_id time_range_arg =
     (case UUID w user_id of
        Inl e \<Rightarrow> (db, Unbound, Inl e)
      | Inr user_uuid \<Rightarrow>
          (let job = \<lparr>job_type = ''ingest_listening_data'', celery_task_id = task_id,
                      job_user_id = Some user_uuid, status = ''running'',
                      params = [(''time_range'', time_range_arg)], job_result = [],
                      error_message = None, status_writes = [''running'']\<rparr>;
               ix = length (background_jobs db)
           in (case insert_job job db of
                 Inl e \<Rightarrow> (db, Refused job, Inl e)
               | Inr db1 \<Rightarrow>
           (case find (\<lambda>t. token_user_id t = user_uuid) (spotify_tokens db1) of
                 None \<Rightarrow>
                   (let job1 = mark_failed ''No Spotify token found for user'' job
                    in (commit_job ix job1 db1, Stored ix job1,
                        Inl (ValueError ''No Spotify token found for user'')))
               | Some token_record \<Rightarrow>
                   (case datetime_le (Aware (expires_at token_record)) (datetime_now w) of
                      Inl e \<Rightarrow> (db1, Stored ix job, Inl e)
                    | Inr expired \<Rightarrow>
                   if expired then
                     (case refresh_spotify_token w user_id db1 of
                        (db2, new_token) \<Rightarrow>
                          (let job1 = mark_failed ''Failed to refresh expired token'' job;
                               refresh_failed =
                                 (commit_job ix job1 db2, Stored ix job1,
                                  Inl (ValueError ''Failed to refresh expired token''))
                           in (case new_token of
                                 None \<Rightarrow> refresh_failed
                               | Some t \<Rightarrow>
                                   if t = [] then refresh_failed
                                   else ingest_fetch_and_store w db2 (ix, job) user_id user_uuid
                                          time_range_arg t)))
                   else ingest_fetch_and_store w db1 (ix, job) user_id user_uuid time_range_arg
                          (access_token token_record))))))"

definition ingest_listening_data ::
  "world \<Rightarrow> db_state \<Rightarrow> string \<Rightarrow> string \<Rightarrow> string \<Rightarrow> db_state \<times> (py_exception + ingest_result)"
where
  "ingest_listening_data w db task_id user_id time_range_arg =
     except_handler (ingest_try w db task_id user_id time_range_arg)"

section \<open>Insight tasks\<close>

text \<open>\<^verbatim>\<open>get_llm_client\<close> raises when the API key is unset or empty.\<close>

definition get_llm_client :: "world \<Rightarrow> py_exception + string" where
  "get_llm_client w =
     (case openai_api_key w of
        None \<Rightarrow> Inl (ValueError ''OPENAI_API_KEY not found in environment'')
      | Some k \<Rightarrow>
          if k = [] then Inl (ValueError ''OPENAI_API_KEY not found in environment'') else Inr k)"

text \<open>
  A prompt template names its variables in braces. The roast task passes the parser's format
  instructions as the value of the variable \<^verbatim>\<open>{format_instructions}\<close>, and the productivity
  task has none. The wellness task builds its system message with an f-string that pastes the
  format instructions, a JSON schema full of braces, into the template text itself; the
  template then names variables that the input of \<^verbatim>\<open>chain.invoke\<close> does not supply, and the
  prompt cannot be formatted.
\<close>

datatype template_style = Instructions_as_variable | Instructions_pasted | No_instructions

text \<open>
  \<^verbatim>\<open>chain.invoke\<close>: the prompt is formatted first, then the model is asked and, where there
  is a parser, its answer parsed; \<open>llm_answer\<close> stands for the last two steps.
\<close>

definition chain_invoke ::
  "world \<Rightarrow> template_style \<Rightarrow> insight_type \<Rightarrow> string \<Rightarrow> string \<Rightarrow> py_exception + llm_output"
where
  "chain_invoke w style kind prompt_tone snapshot_context =
     (case style of
        Instructions_pasted \<Rightarrow>
          Inl (KeyError ''Input to ChatPromptTemplate is missing variables'')
      | Instructions_as_variable \<Rightarrow> llm_answer w kind prompt_tone snapshot_context
      | No_instructions \<Rightarrow> llm_answer w kind prompt_tone snapshot_context)"

record insight_result =
  result_insight_id :: uuid
  result_for_snapshot :: string

text \<open>
  The steps the three insight tasks have in common once the snapshot is loaded: render it,
  build the client, invoke the chain, insert the insight row.
\<close>

definition create_insight ::
  "world \<Rightarrow> db_state \<Rightarrow> listening_snapshot \<Rightarrow> uuid \<Rightarrow> insight_type \<Rightarrow> template_style \<Rightarrow>
   string \<Rightarrow> string \<Rightarrow> db_state \<times> (py_exception + generated_insight)"
where
  "create_insight w db snapshot snapshot_uuid kind style prompt_tone stored_tone =
     (let snapshot_context = format_snapshot_for_llm w snapshot in
      case get_llm_client w of
        Inl e \<Rightarrow> (db, Inl e)
      | Inr llm \<Rightarrow>
          (case chain_invoke w style kind prompt_tone snapshot_context of
             Inl e \<Rightarrow> (db, Inl e)
           | Inr out \<Rightarrow>
               (let insight =
                      \<lparr>insight_id = new_row_id w (length (generated_insights db)),
                       insight_user_id = snapshot_user_id snapshot,
                       insight_snapshot_id = snapshot_uuid,
                       insight_kind = kind,
                       llm_model = ''gpt-4-turbo-preview'',
                       prompt_version = ''v1.0'',
                       tone_mode = stored_tone,
                       content = llm_content out,
                       structured_output = llm_structured out\<rparr>
                in (db\<lparr>generated_insights := generated_insights db @ [insight]\<rparr>, Inr insight))))"

text \<open>The \<^verbatim>\<open>try\<close> block of \<^verbatim>\<open>generate_wellness_insight\<close>: the job row is created first.\<close>

definition generate_wellness_try ::
  "world \<Rightarrow> db_state \<Rightarrow> string \<Rightarrow> string \<Rightarrow> string \<Rightarrow>
   db_state \<times> job_binding \<times> (py_exception + insight_result)"
where
  "generate_wellness_try w db task_id snapshot_id_arg tone =
     (let job = \<lparr>job_type = ''generate_wellness_insight'', celery_task_id = task_id,
                 job_user_id = None, status = ''running'',
                 params = [(''snapshot_id'', snapshot_id_arg), (''tone_mode'', tone)],
                 job_result = [], error_message = None, status_writes = [''running'']\<rparr>;
          ix = length (background_jobs db)
      in case insert_job job db of
           Inl e \<Rightarrow> (db, Refused job, Inl e)
         | Inr db1 \<Rightarrow>
        (case UUID w snapshot_id_arg of
           Inl e \<Rightarrow> (db1, Stored ix job, Inl e)
         | Inr snapshot_uuid \<Rightarrow>
             (case find (\<lambda>s. snapshot_id s = snapshot_uuid) (listening_snapshots db1) of
                None \<Rightarrow>
                  (let job1 = mark_failed ''Snapshot not found'' job
                   in (commit_job ix job1 db1, Stored ix job1,
                       Inl (ValueError ''Snapshot not found'')))
              | Some snapshot \<Rightarrow>
                  (case create_insight w db1 snapshot snapshot_uuid WELLNESS Instructions_pasted
                          tone tone of
                     (db2, Inl e) \<Rightarrow> (db2, Stored ix job, Inl e)
                   | (db2, Inr insight) \<Rightarrow>
                       (let job1 = mark_success [(''insight_id'', JStr (insight_id insight))] job
                        in (commit_job ix job1 db2, Stored ix job1,
                            Inr \<lparr>result_insight_id = insight_id insight,
                                 result_for_snapshot = snapshot_id_arg\<rparr>))))))"

definition generate_wellness_insight ::
  "world \<Rightarrow> db_state \<Rightarrow> string \<Rightarrow> string \<Rightarrow> string \<Rightarrow> db_state \<times> (py_exception + insight_result)"
where
  "generate_wellness_insight w db task_id snapshot_id_arg tone =
     except_handler (generate_wellness_try w db task_id snapshot_id_arg tone)"

text \<open>The \<^verbatim>\<open>try\<close> block of \<^verbatim>\<open>generate_roast\<close>.\<close>

definition generate_roast_try ::
  "world \<Rightarrow> db_state \<Rightarrow> string \<Rightarrow> string \<Rightarrow>
   db_state \<times> job_binding \<times> (py_exception + insight_result)"
where
  "generate_roast_try w db task_id snapshot_id_arg =
     (let job = \<lparr>job_type = ''generate_roast'', celery_task_id = task_id,
                 job_user_id = None, status = ''running'',
                 params = [(''snapshot_id'', snapshot_id_arg)],
                 job_result = [], error_message = None, status_writes = [''running'']\<rparr>;
          ix = length (background_jobs db)
      in case insert_job job db of
           Inl e \<Rightarrow> (db, Refused job, Inl e)
         | Inr db1 \<Rightarrow>
        (case UUID w snapshot_id_arg of
           Inl e \<Rightarrow> (db1, Stored ix job, Inl e)
         | Inr snapshot_uuid \<Rightarrow>
             (case find (\<lambda>s. snapshot_id s = snapshot_uuid) (listening_snapshots db1) of
                None \<Rightarrow>
                  (let job1 = mark_failed ''Snapshot not found'' job
                   in (commit_job ix job1 db1, Stored ix job1,
                       Inl (ValueError ''Snapshot not found'')))
              | Some snapshot \<Rightarrow>
                  (case create_insight w db1 snapshot snapshot_uuid ROAST
                          Instructions_as_variable ''roast'' ''roast'' of
                     (db2, Inl e) \<Rightarrow> (db2, Stored ix job, Inl e)
                   | (db2, Inr insight) \<Rightarrow>
                       (let job1 = mark_success [(''insight_id'', JStr (insight_id insight))] job
                        in (commit_job ix job1 db2, Stored ix job1,
                            Inr \<lparr>result_insight_id = insight_id insight,
                                 result_for_snapshot = snapshot_id_arg\<rparr>))))))"

definition generate_roast ::
  "world \<Rightarrow> db_state \<Rightarrow> string \<Rightarrow> string \<Rightarrow> db_state \<times> (py_exception + insight_result)"
where
  "generate_roast w db task_id snapshot_id_arg =
     except_handler (generate_roast_try w db task_id snapshot_id_arg)"

text \<open>
  \<^verbatim>\<open>generate_productivity_insight\<close>: its \<^verbatim>\<open>try\<close> block starts with the snapshot lookup, no
  \<^verbatim>\<open>BackgroundJob\<close> is constructed anywhere in it, and its \<^verbatim>\<open>except\<close> clause only prints and
  raises again.
\<close>

definition generate_productivity_insight ::
  "world \<Rightarrow> db_state \<Rightarrow> string \<Rightarrow> string \<Rightarrow> db_state \<times> (py_exception + insight_result)"
where
  "generate_productivity_insight w db task_id snapshot_id_arg =
     (case UUID w snapshot_id_arg of
        Inl e \<Rightarrow> (db, Inl e)
      | Inr snapshot_uuid \<Rightarrow>
          (case find (\<lambda>s. snapshot_id s = snapshot_uuid) (listening_snapshots db) of
             None \<Rightarrow> (db, Inl (ValueError ''Snapshot not found''))
           | Some snapshot \<Rightarrow>
               (case create_insight w db snapshot snapshot_uuid PRODUCTIVITY No_instructions
                       ''analytical'' ''analytical'' of
                  (db1, Inl e) \<Rightarrow> (db1, Inl e)
                | (db1, Inr insight) \<Rightarrow>
                    (db1, Inr \<lparr>result_insight_id = insight_id insight,
                              result_for_snapshot = snapshot_id_arg\<rparr>))))"

section \<open>Specification-side notions and sample inputs\<close>


text \<open>A number with at most three decimals: a thousand times it is an integer.\<close>

definition three_decimals :: "real \<Rightarrow> bool" where
  "three_decimals v \<longleftrightarrow> of_int \<lfloor>v * 1000\<rfloor> = v * 1000"


definition track_labels :: "track_features \<Rightarrow> string list" where
  "track_labels f = map fst (filter (\<lambda>(k, c). 0 < c) (mood_step f mood_counts_init))"

definition shannon_entropy :: "(string \<times> real) list \<Rightarrow> real" where
  "shannon_entropy genres = - (\<Sum>p\<leftarrow>filter (\<lambda>p. 0 < p) (map snd genres). p * log 2 p)"

definition label_count :: "string \<Rightarrow> track_features list \<Rightarrow> nat" where
  "label_count m afs = length (filter (\<lambda>f. m \<in> set (track_labels f)) afs)"

definition scenario_track :: track_features where
  "scenario_track =
     [''valence'' \<mapsto> 0.8, ''energy'' \<mapsto> 0.8, ''danceability'' \<mapsto> 0.7,
      ''acousticness'' \<mapsto> 0.1, ''speechiness'' \<mapsto> 0.1]"

definition spec_mood_diversity :: "(string \<times> real) list \<Rightarrow> real" where
  "spec_mood_diversity genres =
     max 0 (min 1 ((- (\<Sum>p\<leftarrow>filter (\<lambda>p. p \<noteq> 0) (map snd genres). p * log 2 p)) / log 2 10))"

definition spec_artist_diversity :: "artist list \<Rightarrow> real" where
  "spec_artist_diversity artists = min (real (card (set (map artist_id artists))) / 50) 1"

definition two_genres :: "(string \<times> real) list" where
  "two_genres = [(''pop'', 0.5), (''rock'', 0.5)]"

definition repeated_artist :: "artist list" where
  "repeated_artist =
     [\<lparr>artist_id = ''a1'', artist_genres = Some [''pop'']\<rparr>,
      \<lparr>artist_id = ''a1'', artist_genres = Some [''pop'']\<rparr>]"

definition numbered_artists :: "nat \<Rightarrow> artist list" where
  "numbered_artists n =
     map (\<lambda>i. \<lparr>artist_id = replicate (Suc i) CHR ''a'', artist_genres = None\<rparr>) [0..<n]"

definition sample_artists :: "artist list" where
  "sample_artists =
     [\<lparr>artist_id = ''x'', artist_genres = Some [''pop'', ''rock'']\<rparr>,
      \<lparr>artist_id = ''y'', artist_genres = Some [''pop'']\<rparr>,
      \<lparr>artist_id = ''z'', artist_genres = None\<rparr>]"

definition three_equal_genres :: "artist list" where
  "three_equal_genres = [\<lparr>artist_id = ''x'', artist_genres = Some [''pop'', ''rock'', ''jazz'']\<rparr>]"

text \<open>All genre tags of a batch of artists, in order, with repetitions.\<close>

definition genre_tags :: "artist list \<Rightarrow> string list" where
  "genre_tags artists =
     concat (map (\<lambda>a. case artist_genres a of None \<Rightarrow> [] | Some gs \<Rightarrow> gs) artists)"

text \<open>The count an ordered dictionary of counts holds for a key, 0 when the key is absent.\<close>

definition cnt :: "(string \<times> nat) list \<Rightarrow> string \<Rightarrow> nat" where
  "cnt gc g = (case map_of gc g of None \<Rightarrow> 0 | Some c \<Rightarrow> c)"

definition sample_world :: world where
  "sample_world =
     \<lparr>uuid_parse = (\<lambda>s. if s = ''not-a-uuid'' then None else Some s),
      now = 100,
      refresh_access_token = (\<lambda>r. Inl (ExternalError ''invalid_grant'')),
      current_user_top_tracks = (\<lambda>token r. Inr [''t1'']),
      current_user_top_artists = (\<lambda>token r. Inr sample_artists),
      audio_features_of = (\<lambda>token ids. Inr [scenario_track]),
      new_row_id = (\<lambda>n. ''row-'' @ replicate n CHR ''i''),
      openai_api_key = Some ''sk-test'',
      format_snapshot_for_llm = (\<lambda>s. ''context''),
      llm_answer = (\<lambda>kind tone ctx. Inr \<lparr>llm_content = ''text'', llm_structured = ''{}''\<rparr>),
      float_ties = (\<lambda>x. True)\<rparr>"

text \<open>A store with one user and no other row.\<close>

definition fresh_db :: db_state where
  "fresh_db =
     \<lparr>users = [''u1''], background_jobs = [], spotify_tokens = [], listening_snapshots = [],
      generated_insights = []\<rparr>"

definition sample_snapshot :: listening_snapshot where
  "sample_snapshot =
     \<lparr>snapshot_id = ''s1'', snapshot_user_id = ''u1'', snapshot_time_range = MEDIUM_TERM,
      snapshot_audio_features = Map.empty, snapshot_genre_distribution = [],
      snapshot_mood_patterns = [], snapshot_artist_diversity = 0, snapshot_mood_diversity = 0,
      total_tracks_analyzed = 0\<rparr>"

definition db_with_snapshot :: db_state where
  "db_with_snapshot = fresh_db\<lparr>listening_snapshots := [sample_snapshot]\<rparr>"

definition db_with_token :: db_state where
  "db_with_token =
     fresh_db\<lparr>spotify_tokens :=
       [\<lparr>token_user_id = ''u1'', access_token = ''tok'', refresh_token = ''ref'',
         expires_at = 200\<rparr>]\<rparr>"

text \<open>The task ids already present in the job table.\<close>

definition used_task_ids :: "db_state \<Rightarrow> string set" where
  "used_task_ids db = set (map celery_task_id (background_jobs db))"

text \<open>The rows a task has added to the job table.\<close>

definition new_jobs :: "db_state \<Rightarrow> db_state \<Rightarrow> background_job list" where
  "new_jobs db db' = drop (length (background_jobs db)) (background_jobs db')"

text \<open>The status sequences the specification allows.\<close>

definition spec_status_sequence :: "string list \<Rightarrow> bool" where
  "spec_status_sequence ws \<longleftrightarrow>
     ws = [''pending'', ''running'', ''success''] \<or> ws = [''pending'', ''running'', ''failed'']"

text \<open>
  The status sequences of the code: the row is born running; a run that returns writes
  success once; a run that raises writes failed once (in the \<^verbatim>\<open>except\<close> clause) or twice (in
  a guard of the \<^verbatim>\<open>try\<close> block and again in the \<^verbatim>\<open>except\<close> clause).
\<close>

definition code_status_sequence :: "bool \<Rightarrow> background_job \<Rightarrow> bool" where
  "code_status_sequence returned j \<longleftrightarrow>
     (if returned then status_writes j = [''running'', ''success'']
      else status_writes j = [''running'', ''failed''] \<or>
           status_writes j = [''running'', ''failed'', ''failed'']) \<and>
     status j = last (status_writes j)"

text \<open>
  A run that has appended exactly one row to the job table and left the earlier rows alone,
  the new row having one of the code's status sequences.
\<close>

definition tracked_run :: "db_state \<Rightarrow> db_state \<times> (py_exception + 'a) \<Rightarrow> bool" where
  "tracked_run db r \<longleftrightarrow>
     (case r of
        (db', res) \<Rightarrow>
          take (length (background_jobs db)) (background_jobs db') = background_jobs db \<and>
          (case new_jobs db db' of
             [j] \<Rightarrow> code_status_sequence (\<not> isl res) j
           | _ \<Rightarrow> False))"

text \<open>A run that has left the store as it was and raised.\<close>

definition untracked_failure :: "db_state \<Rightarrow> db_state \<times> (py_exception + 'a) \<Rightarrow> bool" where
  "untracked_failure db r \<longleftrightarrow> fst r = db \<and> isl (snd r)"

text \<open>What holds of the result of a \<^verbatim>\<open>try\<close> block that stored its job row.\<close>

fun try_inv ::
  "background_job list \<Rightarrow> db_state \<times> job_binding \<times> (py_exception + 'a) \<Rightarrow> bool"
where
  "try_inv pre (db', Stored ix j, res) \<longleftrightarrow>
     ix = length pre \<and> background_jobs db' = pre @ [j] \<and>
     (case res of
        Inr v \<Rightarrow> status_writes j = [''running'', ''success''] \<and> status j = ''success''
      | Inl e \<Rightarrow>
          (status_writes j = [''running''] \<and> status j = ''running'') \<or>
          (status_writes j = [''running'', ''failed''] \<and> status j = ''failed''))"
| "try_inv pre (db', Refused j, res) \<longleftrightarrow> False"
| "try_inv pre (db', Unbound, res) \<longleftrightarrow> False"

section \<open>Properties of the aggregation engine\<close>













text \<open>
  C6. On the empty batch every function of the engine returns, and returns the empty or zero
  result: an empty statistics map, an empty genre distribution, an empty mood-pattern map and
  two diversity scores of 0.
\<close>

theorem empty_batch_results:
  "calculate_audio_feature_stats [] = Inr Map.empty \<and>
   extract_genre_distribution tie_up [] = Inr [] \<and>
   calculate_mood_patterns tie_up [] = Inr [] \<and>
   calculate_diversity_scores tie_up [] [] =
     Inr \<lparr>artist_diversity_score = 0, mood_diversity_score = 0\<rparr>"
  by (simp add: calculate_audio_feature_stats_def extract_genre_distribution_def
      calculate_mood_patterns_def calculate_diversity_scores_def py_round3_def Let_def)

lemma py_round3_of_int: "py_round3 tie_up (of_int k / 1000) = of_int k / 1000"
  by (simp add: py_round3_def Let_def)

lemma three_decimals_round3: "three_decimals (py_round3 tie_up x)"
  by (simp add: three_decimals_def py_round3_def Let_def)

lemma normalize_counts_eq:
  "total_genres \<noteq> 0 \<Longrightarrow>
   normalize_counts tie_up gc total_genres =
     Inr (map (\<lambda>(g, c). (g, py_round3 tie_up (real c / real total_genres))) gc)"
  by (induction gc) (auto simp: py_truediv_def)

lemma mood_entries_eq:
  "t \<noteq> 0 \<Longrightarrow>
   mood_entries tie_up mc t =
     Inr (map (\<lambda>(m, c). (m, \<lparr>percentage = py_round3 tie_up (real c / real t), track_count = c\<rparr>))
            (filter (\<lambda>(m, c). 0 < c) mc))"
  by (induction mc) (auto simp: py_truediv_def)

lemma entropy_loop_eq:
  "entropy_loop ps acc = Inr (acc - (\<Sum>p\<leftarrow>filter (\<lambda>p. 0 < p) ps. p * log 2 p))"
  by (induction ps arbitrary: acc) (auto simp: math_log2_def)

lemma mood_step_keys:
  assumes "map fst mc = map fst mood_counts_init"
  shows "mood_step f mc =
    map (\<lambda>(k, c). (k, c + (if k \<in> set (track_labels f) then 1 else 0))) mc"
proof -
  obtain a b c d e g where mc:
    "mc = [(''happy'', a), (''sad'', b), (''energetic'', c), (''calm'', d), (''focused'', e),
           (''other'', g)]"
    using assms by (auto simp: mood_counts_init_def)
  show ?thesis
    unfolding mc
    apply (cases "0.6 < dict_get f ''valence'' 0.5 \<and> 0.6 < dict_get f ''energy'' 0.5";
           cases "dict_get f ''valence'' 0.5 < 0.4 \<and> dict_get f ''energy'' 0.5 < 0.5";
           cases "0.7 < dict_get f ''energy'' 0.5 \<and> 0.6 < dict_get f ''danceability'' 0.5";
           cases "dict_get f ''energy'' 0.5 < 0.4 \<and> 0.5 < dict_get f ''acousticness'' 0.5";
           cases "dict_get f ''speechiness'' 0.5 < 0.3 \<and> 0.3 \<le> dict_get f ''energy'' 0.5 \<and>
                  dict_get f ''energy'' 0.5 \<le> 0.7")
    apply (simp_all only: track_labels_def mood_step_def mood_counts_init_def Let_def if_True if_False
        split_conv)
    apply (simp_all add: incr_def)
    done
qed

lemma fold_mood_step:
  "map fst mc = map fst mood_counts_init \<Longrightarrow>
   fold mood_step afs mc = map (\<lambda>(k, c). (k, c + label_count k afs)) mc"
proof (induction afs arbitrary: mc)
  case Nil
  then show ?case by (simp add: label_count_def)
next
  case (Cons f afs)
  let ?mc1 = "map (\<lambda>(k, c). (k, c + (if k \<in> set (track_labels f) then 1 else 0))) mc"
  have keys: "map fst ?mc1 = map fst mood_counts_init"
    using Cons.prems by (simp add: comp_def case_prod_unfold)
  have "fold mood_step (f # afs) mc = fold mood_step afs ?mc1"
    by (simp add: mood_step_keys[OF Cons.prems])
  also have "\<dots> = map (\<lambda>(k, c). (k, c + label_count k afs)) ?mc1"
    by (rule Cons.IH[OF keys])
  also have "\<dots> = map (\<lambda>(k, c). (k, c + label_count k (f # afs))) mc"
    by (simp add: label_count_def case_prod_unfold)
  finally show ?case .
qed

lemma calculate_mood_patterns_eq:
  "afs \<noteq> [] \<Longrightarrow>
   calculate_mood_patterns tie_up afs =
     Inr (map (\<lambda>(m, c). (m, \<lparr>percentage = py_round3 tie_up (real c / real (length afs)), track_count = c\<rparr>))
            (filter (\<lambda>(m, c). 0 < c)
               (map (\<lambda>(k, c). (k, c + label_count k afs)) mood_counts_init)))"
  by (simp add: calculate_mood_patterns_def Let_def fold_mood_step mood_entries_eq)

lemma mood_patterns_entries:
  assumes "calculate_mood_patterns tie_up afs = Inr mp" "(m, e) \<in> set mp"
  shows "three_decimals (percentage e) \<and>
         percentage e = py_round3 tie_up (real (track_count e) / real (length afs)) \<and>
         track_count e = label_count m afs \<and> 0 < track_count e"
proof (cases "afs = []")
  case True
  then show ?thesis using assms by (simp add: calculate_mood_patterns_def)
next
  case False
  have zero: "(k, c) \<in> set mood_counts_init \<Longrightarrow> c = 0" for k c
    by (auto simp: mood_counts_init_def)
  from assms calculate_mood_patterns_eq[OF False]
  obtain k c where "(k, c) \<in> set mood_counts_init" "m = k"
    "e = \<lparr>percentage = py_round3 tie_up (real (c + label_count k afs) / real (length afs)),
          track_count = c + label_count k afs\<rparr>" "0 < c + label_count k afs"
    by auto
  then show ?thesis using zero[of k c] by (simp add: three_decimals_round3)
qed

lemma extract_genre_distribution_total:
  "\<exists>dist. extract_genre_distribution tie_up artists = Inr dist \<and> (\<forall>(g, p) \<in> set dist. three_decimals p)"
proof (cases "count_artists artists ([], 0)")
  case (Pair gc t)
  show ?thesis
  proof (cases "t = 0")
    case True
    then show ?thesis using Pair by (simp add: extract_genre_distribution_def)
  next
    case False
    let ?d = "map (\<lambda>(g, c). (g, py_round3 tie_up (real c / real t))) gc"
    have "extract_genre_distribution tie_up artists = Inr (take 10 (sorted_desc ?d))"
      using Pair False by (simp add: extract_genre_distribution_def normalize_counts_eq)
    moreover have "\<forall>(g, p) \<in> set (take 10 (sorted_desc ?d)). three_decimals p"
    proof -
      have "set (take 10 (sorted_desc ?d)) \<subseteq> set ?d"
        using set_take_subset[of 10 "sorted_desc ?d"] by (simp add: sorted_desc_def)
      then show ?thesis by (auto simp: three_decimals_round3)
    qed
    ultimately show ?thesis by simp
  qed
qed

lemma calculate_diversity_scores_eq:
  "calculate_diversity_scores tie_up artists genres =
     Inr \<lparr>artist_diversity_score = py_round3 tie_up (min (real (length artists) / 50) 1),
          mood_diversity_score =
            py_round3 tie_up (if 0 < shannon_entropy genres
                       then min (shannon_entropy genres / 3.32) 1 else 0)\<rparr>"
  by (cases genres)
     (simp_all add: calculate_diversity_scores_def entropy_loop_eq Let_def shannon_entropy_def)

lemma scenario_track_patterns:
  "calculate_mood_patterns tie_up [scenario_track] =
     Inr [(''happy'', \<lparr>percentage = 1, track_count = 1\<rparr>),
          (''energetic'', \<lparr>percentage = 1, track_count = 1\<rparr>)]"
  by (simp add: calculate_mood_patterns_def scenario_track_def mood_step_def dict_get_def incr_def
      mood_counts_init_def py_truediv_def py_round3_def Let_def)

text \<open>
  C2, amended. The scenario track is labelled happy and energetic, and with no other label:
  neither focused nor the catch-all other.
\<close>

theorem scenario_track_labels:
  "\<exists>mp. calculate_mood_patterns tie_up [scenario_track] = Inr mp \<and>
     map fst mp = [''happy'', ''energetic''] \<and>
     map_of mp ''focused'' = None \<and> map_of mp ''other'' = None"
  by (simp add: scenario_track_patterns)

text \<open>
  C2, as stated, fails: the scenario track (valence 0.8, energy 0.8, danceability 0.7,
  acousticness 0.1, speechiness 0.1) is not labelled focused, because its energy 0.8 is
  outside the band from 0.3 to 0.7 that the focused rule requires.
\<close>

theorem scenario_track_not_focused:
  "\<not> (\<exists>tie_up mp. calculate_mood_patterns tie_up [scenario_track] = Inr mp \<and>
          ''happy'' \<in> fst ` set mp \<and> ''energetic'' \<in> fst ` set mp \<and>
          ''focused'' \<in> fst ` set mp \<and> ''other'' \<notin> fst ` set mp)"
  by (simp add: scenario_track_patterns)

lemma five_not_dvd_pow2: "\<not> (5::nat) dvd 2 ^ a"
proof (induction a)
  case 0
  then show ?case by simp
next
  case (Suc a)
  then show ?case by (simp add: coprime_dvd_mult_right_iff)
qed

lemma pow2_neq_pow10: "0 < b \<Longrightarrow> (2::nat) ^ a \<noteq> 10 ^ b"
proof
  assume b: "0 < b" and e: "(2::nat) ^ a = 10 ^ b"
  have "(5::nat) dvd 10 ^ b" using b by (simp add: dvd_power_le[of 5 10 1 b, simplified] Suc_leI)
  then have "(5::nat) dvd 2 ^ a" using e by simp
  then show False using five_not_dvd_pow2 by blast
qed

lemma log2_10_not_rational: "0 < b \<Longrightarrow> log 2 10 \<noteq> real a / real b"
proof
  assume b: "0 < b" and l: "log 2 10 = real a / real b"
  have "real b * log 2 10 = real a" using b l by simp
  then have "log 2 (10 ^ b) = real a" by (simp add: log_nat_power)
  then have "(2::real) powr (log 2 (10 ^ b)) = 2 powr real a" by simp
  then have "(10::real) ^ b = 2 powr real a" by simp
  then have "(10::real) ^ b = 2 ^ a" by (simp add: powr_realpow)
  then have "real (10 ^ b) = real (2 ^ a)" by simp
  then have "(10::nat) ^ b = 2 ^ a" using of_nat_eq_iff by blast
  then show False using pow2_neq_pow10[OF b, of a] by simp
qed

lemma log2_10_not_1000_301: "log 2 10 \<noteq> (1000 / 301 :: real)"
  using log2_10_not_rational[of 301 1000] by simp

lemma py_round3_unit:
  assumes "0 \<le> x" "x \<le> 1"
  shows "0 \<le> py_round3 tie_up x \<and> py_round3 tie_up x \<le> 1"
proof -
  define y where "y = x * 1000"
  define n where "n = \<lfloor>y\<rfloor>"
  have y: "0 \<le> y" "y \<le> 1000" using assms by (simp_all add: y_def)
  have n0: "0 \<le> n" unfolding n_def using y by simp
  have n1: "n \<le> 1000" unfolding n_def using y by (simp add: floor_le_iff)
  have b: "of_int n \<le> y" "y < of_int n + 1" unfolding n_def by linarith+
  have top: "n = 1000 \<Longrightarrow> y - of_int n = 0" using b y by simp
  show ?thesis
    unfolding py_round3_def Let_def y_def[symmetric] n_def[symmetric]
    using n0 n1 top by (cases "n = 1000") auto
qed

lemma py_round3_error: "\<bar>py_round3 tie_up x - x\<bar> \<le> 1 / 2000"
proof -
  define y where "y = x * 1000"
  define n where "n = \<lfloor>y\<rfloor>"
  define r where "r = (if y - of_int n < 1 / 2 then n else if 1 / 2 < y - of_int n then n + 1
                       else if tie_up x then n + 1 else n)"
  have b: "of_int n \<le> y" "y < of_int n + 1" unfolding n_def by linarith+
  have p: "py_round3 tie_up x = of_int r / 1000"
    by (simp add: py_round3_def Let_def y_def n_def r_def)
  have "\<bar>of_int r - y\<bar> \<le> 1 / 2"
    using b unfolding r_def by (simp split: if_splits)
  moreover have "py_round3 tie_up x - x = (of_int r - y) / 1000"
    by (simp add: p y_def)
  ultimately show ?thesis by (simp add: abs_if split: if_splits)
qed

lemma py_round3_artist: "py_round3 tie_up (min (real n / 50) 1) = min (real n / 50) 1"
proof -
  have "min (real n / 50) 1 = of_int (min (20 * int n) 1000) / 1000"
    by (simp add: min_def)
  then show ?thesis by (simp only: py_round3_of_int)
qed

text \<open>
  C7, amended. The mood diversity score is the Shannon entropy of the positive fractions
  divided by the constant 3.32 (not by the binary logarithm of 10), capped at 1, taken as 0
  when the entropy is not positive, and rounded to three decimals; it lies between 0 and 1.
\<close>

theorem mood_diversity_formula:
  "\<exists>d. calculate_diversity_scores tie_up artists genres = Inr d \<and>
     mood_diversity_score d =
       py_round3 tie_up (if 0 < shannon_entropy genres
                  then min (shannon_entropy genres / 3.32) 1 else 0) \<and>
     0 \<le> mood_diversity_score d \<and> mood_diversity_score d \<le> 1"
proof -
  have "0 \<le> py_round3 tie_up (if 0 < shannon_entropy genres
                          then min (shannon_entropy genres / 3.32) 1 else 0) \<and>
        py_round3 tie_up (if 0 < shannon_entropy genres
                   then min (shannon_entropy genres / 3.32) 1 else 0) \<le> 1"
    by (rule py_round3_unit) simp_all
  then show ?thesis
    by (simp add: calculate_diversity_scores_eq)
qed

lemma two_genres_scores:
  "calculate_diversity_scores tie_up [] two_genres =
     Inr \<lparr>artist_diversity_score = 0, mood_diversity_score = 0.301\<rparr>"
  by (simp add: two_genres_def calculate_diversity_scores_def py_round3_def Let_def math_log2_def
      log_divide)

theorem mood_diversity_formula_witness:
  "\<forall>tie_up. \<exists>d. calculate_diversity_scores tie_up [] two_genres = Inr d \<and>
     mood_diversity_score d = 0.301 \<and>
     0 \<le> mood_diversity_score d \<and> mood_diversity_score d \<le> 1"
proof
  fix tie_up
  show "\<exists>d. calculate_diversity_scores tie_up [] two_genres = Inr d \<and>
     mood_diversity_score d = 0.301 \<and>
     0 \<le> mood_diversity_score d \<and> mood_diversity_score d \<le> 1"
    using mood_diversity_formula [of tie_up "[]" two_genres] by (simp add: two_genres_scores)
qed

lemma spec_two_genres: "spec_mood_diversity two_genres = 1 / log 2 10"
proof -
  have pos: "1 < log 2 (10::real)" by (simp add: less_log_iff)
  have "spec_mood_diversity two_genres = max 0 (min 1 (1 / log 2 10))"
    by (simp add: spec_mood_diversity_def two_genres_def log_divide)
  then show ?thesis using pos by (simp add: max_def min_def)
qed

text \<open>
  C7, as stated, fails: for two genres of fraction one half each the entropy is 1, the code
  returns 0.301, and the entropy divided by the binary logarithm of 10 is a different number.
\<close>

theorem mood_diversity_spec_counterexample:
  "\<forall>tie_up. \<exists>d. calculate_diversity_scores tie_up [] two_genres = Inr d \<and>
     mood_diversity_score d \<noteq> spec_mood_diversity two_genres"
proof -
  have pos: "0 < log 2 (10::real)" by simp
  have "1 / log 2 10 \<noteq> (0.301 :: real)"
  proof
    assume "1 / log 2 10 = (0.301 :: real)"
    then have "log 2 10 * 301 = (1000 :: real)" using pos by (simp add: field_simps)
    then have "log 2 10 = (1000 / 301 :: real)" by simp
    then show False using log2_10_not_1000_301 by simp
  qed
  then show ?thesis by (simp add: two_genres_scores spec_two_genres)
qed

text \<open>
  C8, amended. The artist diversity score is the number of entries of the batch over 50,
  capped at 1: entries are counted, not distinct artists. When no artist occurs twice this is
  the number of distinct artists over 50; a batch of 50 entries gives 1 and one of 10 gives 0.2.
\<close>

theorem artist_diversity_formula:
  "\<exists>d. calculate_diversity_scores tie_up artists genres = Inr d \<and>
     artist_diversity_score d = min (real (length artists) / 50) 1 \<and>
     (distinct (map artist_id artists) \<longrightarrow> artist_diversity_score d = spec_artist_diversity artists) \<and>
     (length artists = 50 \<longrightarrow> artist_diversity_score d = 1) \<and>
     (length artists = 10 \<longrightarrow> artist_diversity_score d = 0.2)"
proof -
  have "distinct (map artist_id artists) \<Longrightarrow> card (set (map artist_id artists)) = length artists"
    using distinct_card[of "map artist_id artists"] by simp
  then show ?thesis
    by (auto simp: calculate_diversity_scores_eq py_round3_artist spec_artist_diversity_def
        simp del: set_map)
qed

lemma numbered_artists_distinct: "distinct (map artist_id (numbered_artists n))"
proof -
  have "inj_on (\<lambda>i. replicate (Suc i) CHR ''a'') (set [0..<n])"
    by (rule inj_onI) (auto dest: arg_cong[where f = length])
  then show ?thesis by (simp add: numbered_artists_def comp_def distinct_map)
qed

theorem artist_diversity_formula_witness:
  "\<forall>tie_up.
     (\<exists>d. calculate_diversity_scores tie_up (numbered_artists 50) [] = Inr d \<and>
        artist_diversity_score d = 1 \<and>
        artist_diversity_score d = spec_artist_diversity (numbered_artists 50)) \<and>
     (\<exists>d. calculate_diversity_scores tie_up (numbered_artists 10) [] = Inr d \<and>
        artist_diversity_score d = 0.2 \<and>
        artist_diversity_score d = spec_artist_diversity (numbered_artists 10))"
proof
  fix tie_up
  have l: "length (numbered_artists n) = n" for n by (simp add: numbered_artists_def)
  show "(\<exists>d. calculate_diversity_scores tie_up (numbered_artists 50) [] = Inr d \<and>
        artist_diversity_score d = 1 \<and>
        artist_diversity_score d = spec_artist_diversity (numbered_artists 50)) \<and>
     (\<exists>d. calculate_diversity_scores tie_up (numbered_artists 10) [] = Inr d \<and>
        artist_diversity_score d = 0.2 \<and>
        artist_diversity_score d = spec_artist_diversity (numbered_artists 10))"
    using artist_diversity_formula [of tie_up "numbered_artists 50" "[]"]
      artist_diversity_formula [of tie_up "numbered_artists 10" "[]"]
      numbered_artists_distinct [of 50] numbered_artists_distinct [of 10]
    by (auto simp: l)
qed

text \<open>
  C8, as stated, fails: a batch that lists the same artist twice scores 0.04, while one
  distinct artist over 50 is 0.02.
\<close>

theorem artist_diversity_spec_counterexample:
  "\<forall>tie_up. \<exists>d. calculate_diversity_scores tie_up repeated_artist [] = Inr d \<and>
     artist_diversity_score d = 0.04 \<and> spec_artist_diversity repeated_artist = 0.02 \<and>
     artist_diversity_score d \<noteq> spec_artist_diversity repeated_artist"
  by (simp add: repeated_artist_def calculate_diversity_scores_def spec_artist_diversity_def
      py_round3_def Let_def)

lemma count_genres_counts:
  assumes "distinct (map fst gc)" "count_genres gs (gc, t) = (gc', t')"
  shows "distinct (map fst gc') \<and> t' = t + length gs \<and>
         (\<forall>g. cnt gc' g = cnt gc g + count_list gs g)"
  using assms
proof (induction gs arbitrary: gc t)
  case Nil
  then show ?case by simp
next
  case (Cons genre rest)
  let ?gc1 = "AList.update genre (case map_of gc genre of None \<Rightarrow> 0 + 1 | Some c \<Rightarrow> c + 1) gc"
  have d: "distinct (map fst ?gc1)" using Cons.prems(1) by (simp add: AList.distinct_update)
  have r: "count_genres rest (?gc1, t + 1) = (gc', t')" using Cons.prems(2) by simp
  have c1: "cnt ?gc1 g = cnt gc g + (if genre = g then 1 else 0)" for g
    by (simp add: cnt_def AList.update_conv' split: option.splits)
  from Cons.IH[OF d r] show ?case by (simp add: c1)
qed

lemma count_artists_counts:
  assumes "distinct (map fst gc)" "count_artists artists (gc, t) = (gc', t')"
  shows "distinct (map fst gc') \<and> t' = t + length (genre_tags artists) \<and>
         (\<forall>g. cnt gc' g = cnt gc g + count_list (genre_tags artists) g)"
  using assms
proof (induction artists arbitrary: gc t)
  case Nil
  then show ?case by (simp add: genre_tags_def)
next
  case (Cons a rest)
  let ?gs = "case artist_genres a of None \<Rightarrow> [] | Some gs \<Rightarrow> gs"
  obtain gc1 t1 where s: "count_genres ?gs (gc, t) = (gc1, t1)" by (cases "count_genres ?gs (gc, t)")
  note a = count_genres_counts[OF Cons.prems(1) s]
  have r: "count_artists rest (gc1, t1) = (gc', t')" using Cons.prems(2) s by simp
  have g: "genre_tags (a # rest) = ?gs @ genre_tags rest" by (simp add: genre_tags_def)
  from Cons.IH[OF _ r] a show ?case by (simp add: g)
qed

lemma genre_counts_exact:
  assumes "count_artists artists ([], 0) = (gc, t)"
  shows "t = length (genre_tags artists)"
    and "(g, c) \<in> set gc \<Longrightarrow> c = count_list (genre_tags artists) g"
proof -
  note a = count_artists_counts[OF _ assms, simplified]
  show "t = length (genre_tags artists)" using a by simp
  assume m: "(g, c) \<in> set gc"
  have "map_of gc g = Some c" using a m by simp
  then have "cnt gc g = c" by (simp add: cnt_def)
  then show "c = count_list (genre_tags artists) g" using a by (simp add: cnt_def)
qed

lemma genre_distribution_entries:
  "\<exists>dist. extract_genre_distribution tie_up artists = Inr dist \<and>
     (\<forall>(g, p) \<in> set dist.
        p = py_round3 tie_up (real (count_list (genre_tags artists) g) /
                              real (length (genre_tags artists))))"
proof (cases "count_artists artists ([], 0)")
  case (Pair gc t)
  note e = genre_counts_exact[OF Pair]
  show ?thesis
  proof (cases "t = 0")
    case True
    then show ?thesis using Pair by (simp add: extract_genre_distribution_def)
  next
    case False
    let ?d = "map (\<lambda>(g, c). (g, py_round3 tie_up (real c / real t))) gc"
    have x: "extract_genre_distribution tie_up artists = Inr (take 10 (sorted_desc ?d))"
      using Pair False by (simp add: extract_genre_distribution_def normalize_counts_eq)
    have sub: "set (take 10 (sorted_desc ?d)) \<subseteq> set ?d"
      using set_take_subset[of 10 "sorted_desc ?d"] by (simp add: sorted_desc_def)
    have "p = py_round3 tie_up (real (count_list (genre_tags artists) g) /
                              real (length (genre_tags artists)))"
      if "(g, p) \<in> set (take 10 (sorted_desc ?d))" for g p
    proof -
      from that sub have "(g, p) \<in> set ?d" by blast
      then obtain c where "(g, c) \<in> set gc" "p = py_round3 tie_up (real c / real t)" by auto
      then show ?thesis using e by simp
    qed
    then show ?thesis using x by auto
  qed
qed

lemma calculate_mood_patterns_total: "\<exists>mp. calculate_mood_patterns tie_up afs = Inr mp"
proof (cases "afs = []")
  case True
  then show ?thesis by (simp add: calculate_mood_patterns_def)
next
  case False
  then show ?thesis by (simp add: calculate_mood_patterns_eq)
qed

text \<open>
  C10. Every genre fraction, every mood percentage and both diversity scores are the rounding
  to three decimals of the value computed: a genre's number of tags over the number of all
  tags, a label's track count over the number of tracks, the capped artist count and the
  capped normalised entropy. So each has at most three decimals and lies within half a
  thousandth of the unrounded value, whichever way a midpoint is rounded. The track count of a
  label is the exact number of tracks that carry it.
\<close>

theorem rounded_outputs:
  "(\<exists>dist. extract_genre_distribution tie_up artists = Inr dist \<and>
      (\<forall>(g, p) \<in> set dist.
         three_decimals p \<and>
         p = py_round3 tie_up (real (count_list (genre_tags artists) g) /
                               real (length (genre_tags artists))) \<and>
         \<bar>p - real (count_list (genre_tags artists) g) / real (length (genre_tags artists))\<bar>
           \<le> 1 / 2000)) \<and>
   (\<exists>mp. calculate_mood_patterns tie_up afs = Inr mp \<and>
      (\<forall>(m, e) \<in> set mp.
         three_decimals (percentage e) \<and>
         percentage e = py_round3 tie_up (real (track_count e) / real (length afs)) \<and>
         \<bar>percentage e - real (track_count e) / real (length afs)\<bar> \<le> 1 / 2000 \<and>
         track_count e = label_count m afs)) \<and>
   (\<exists>d. calculate_diversity_scores tie_up artists genres = Inr d \<and>
      artist_diversity_score d = py_round3 tie_up (min (real (length artists) / 50) 1) \<and>
      mood_diversity_score d =
        py_round3 tie_up (if 0 < shannon_entropy genres
                          then min (shannon_entropy genres / 3.32) 1 else 0) \<and>
      three_decimals (artist_diversity_score d) \<and> three_decimals (mood_diversity_score d) \<and>
      \<bar>artist_diversity_score d - min (real (length artists) / 50) 1\<bar> \<le> 1 / 2000 \<and>
      \<bar>mood_diversity_score d -
        (if 0 < shannon_entropy genres then min (shannon_entropy genres / 3.32) 1 else 0)\<bar>
        \<le> 1 / 2000)"
proof (intro conjI)
  obtain dist where d: "extract_genre_distribution tie_up artists = Inr dist"
    and e: "\<forall>(g, p) \<in> set dist.
        p = py_round3 tie_up (real (count_list (genre_tags artists) g) /
                              real (length (genre_tags artists)))"
    using genre_distribution_entries[of tie_up artists] by blast
  have "three_decimals p \<and>
         p = py_round3 tie_up (real (count_list (genre_tags artists) g) /
                               real (length (genre_tags artists))) \<and>
         \<bar>p - real (count_list (genre_tags artists) g) / real (length (genre_tags artists))\<bar>
           \<le> 1 / 2000" if "(g, p) \<in> set dist" for g p
  proof -
    have p: "p = py_round3 tie_up (real (count_list (genre_tags artists) g) /
                              real (length (genre_tags artists)))"
      using e that by blast
    show ?thesis
      using p three_decimals_round3[of tie_up "real (count_list (genre_tags artists) g) /
                              real (length (genre_tags artists))"]
        py_round3_error[of tie_up "real (count_list (genre_tags artists) g) /
                              real (length (genre_tags artists))"]
      by metis
  qed
  then show "\<exists>dist. extract_genre_distribution tie_up artists = Inr dist \<and>
      (\<forall>(g, p) \<in> set dist.
         three_decimals p \<and>
         p = py_round3 tie_up (real (count_list (genre_tags artists) g) /
                               real (length (genre_tags artists))) \<and>
         \<bar>p - real (count_list (genre_tags artists) g) / real (length (genre_tags artists))\<bar>
           \<le> 1 / 2000)"
    using d by blast
next
  obtain mp where mp: "calculate_mood_patterns tie_up afs = Inr mp"
    using calculate_mood_patterns_total by blast
  have "three_decimals (percentage e) \<and>
         percentage e = py_round3 tie_up (real (track_count e) / real (length afs)) \<and>
         \<bar>percentage e - real (track_count e) / real (length afs)\<bar> \<le> 1 / 2000 \<and>
         track_count e = label_count m afs" if "(m, e) \<in> set mp" for m e
  proof -
    note a = mood_patterns_entries[OF mp that]
    have "\<bar>py_round3 tie_up (real (track_count e) / real (length afs)) -
            real (track_count e) / real (length afs)\<bar> \<le> 1 / 2000"
      by (rule py_round3_error)
    then have "\<bar>percentage e - real (track_count e) / real (length afs)\<bar> \<le> 1 / 2000"
      using a by metis
    then show ?thesis using a by blast
  qed
  then show "\<exists>mp. calculate_mood_patterns tie_up afs = Inr mp \<and>
      (\<forall>(m, e) \<in> set mp.
         three_decimals (percentage e) \<and>
         percentage e = py_round3 tie_up (real (track_count e) / real (length afs)) \<and>
         \<bar>percentage e - real (track_count e) / real (length afs)\<bar> \<le> 1 / 2000 \<and>
         track_count e = label_count m afs)"
    using mp by blast
next
  show "\<exists>d. calculate_diversity_scores tie_up artists genres = Inr d \<and>
      artist_diversity_score d = py_round3 tie_up (min (real (length artists) / 50) 1) \<and>
      mood_diversity_score d =
        py_round3 tie_up (if 0 < shannon_entropy genres
                          then min (shannon_entropy genres / 3.32) 1 else 0) \<and>
      three_decimals (artist_diversity_score d) \<and> three_decimals (mood_diversity_score d) \<and>
      \<bar>artist_diversity_score d - min (real (length artists) / 50) 1\<bar> \<le> 1 / 2000 \<and>
      \<bar>mood_diversity_score d -
        (if 0 < shannon_entropy genres then min (shannon_entropy genres / 3.32) 1 else 0)\<bar>
        \<le> 1 / 2000"
    using py_round3_error[of tie_up "min (real (length artists) / 50) 1"]
      py_round3_error[of tie_up "if 0 < shannon_entropy genres
                          then min (shannon_entropy genres / 3.32) 1 else 0"]
    by (simp only: calculate_diversity_scores_eq three_decimals_round3 sum.inject simp_thms
        ex_simps diversity_scores.simps)
qed

lemma sample_artists_distribution:
  "extract_genre_distribution tie_up sample_artists = Inr [(''pop'', 0.667), (''rock'', 0.333)]"
  by (simp add: sample_artists_def extract_genre_distribution_def py_round3_def Let_def
      py_truediv_def sorted_desc_def)

lemma sample_artists_tags: "genre_tags sample_artists = [''pop'', ''rock'', ''pop'']"
  by (simp add: genre_tags_def sample_artists_def)

theorem rounded_outputs_witness:
  "\<forall>tie_up.
     (extract_genre_distribution tie_up sample_artists =
        Inr [(''pop'', 0.667), (''rock'', 0.333)] \<and>
      three_decimals 0.667 \<and> three_decimals 0.333 \<and>
      \<bar>0.667 - 2 / 3\<bar> \<le> (1 / 2000 :: real) \<and> \<bar>0.333 - 1 / 3\<bar> \<le> (1 / 2000 :: real)) \<and>
     (calculate_mood_patterns tie_up [scenario_track] =
        Inr [(''happy'', \<lparr>percentage = 1, track_count = 1\<rparr>),
             (''energetic'', \<lparr>percentage = 1, track_count = 1\<rparr>)] \<and>
      label_count ''happy'' [scenario_track] = 1 \<and>
      label_count ''energetic'' [scenario_track] = 1) \<and>
     (\<exists>d. calculate_diversity_scores tie_up sample_artists two_genres = Inr d \<and>
        artist_diversity_score d = 0.06 \<and> mood_diversity_score d = 0.301)"
proof
  fix tie_up
  have s: "calculate_diversity_scores tie_up sample_artists two_genres =
      Inr \<lparr>artist_diversity_score = 0.06, mood_diversity_score = 0.301\<rparr>"
    by (simp add: two_genres_def sample_artists_def calculate_diversity_scores_def py_round3_def
        Let_def math_log2_def log_divide)
  show "(extract_genre_distribution tie_up sample_artists =
        Inr [(''pop'', 0.667), (''rock'', 0.333)] \<and>
      three_decimals 0.667 \<and> three_decimals 0.333 \<and>
      \<bar>0.667 - 2 / 3\<bar> \<le> (1 / 2000 :: real) \<and> \<bar>0.333 - 1 / 3\<bar> \<le> (1 / 2000 :: real)) \<and>
     (calculate_mood_patterns tie_up [scenario_track] =
        Inr [(''happy'', \<lparr>percentage = 1, track_count = 1\<rparr>),
             (''energetic'', \<lparr>percentage = 1, track_count = 1\<rparr>)] \<and>
      label_count ''happy'' [scenario_track] = 1 \<and>
      label_count ''energetic'' [scenario_track] = 1) \<and>
     (\<exists>d. calculate_diversity_scores tie_up sample_artists two_genres = Inr d \<and>
        artist_diversity_score d = 0.06 \<and> mood_diversity_score d = 0.301)"
    using rounded_outputs [of tie_up sample_artists "[scenario_track]" two_genres]
    by (simp add: sample_artists_distribution scenario_track_patterns sample_artists_tags s)
qed

lemma three_equal_genres_sum:
  "extract_genre_distribution tie_up three_equal_genres =
     Inr [(''pop'', 0.333), (''rock'', 0.333), (''jazz'', 0.333)] \<and>
   sum_list (map snd [(''pop'', 0.333), (''rock'', 0.333), (''jazz'', 0.333 :: real)]) = 0.999"
  by (simp add: three_equal_genres_def extract_genre_distribution_def py_round3_def Let_def
      py_truediv_def sorted_desc_def)

section \<open>Properties of the tasks\<close>

lemma except_handler_tracked:
  assumes "try_inv (background_jobs db) r"
  shows "tracked_run db (except_handler r)"
proof -
  obtain db' b res where r: "r = (db', b, res)" by (cases r)
  show ?thesis
    using assms unfolding r
    by (cases b; cases res)
       (auto simp: except_handler_def commit_job_def mark_failed_def new_jobs_def
          code_status_sequence_def tracked_run_def)
qed

lemma insert_job_accepted:
  assumes "celery_task_id job \<notin> used_task_ids db"
    and "job_user_id job = None \<or> (\<exists>u. job_user_id job = Some u \<and> u \<in> set (users db))"
  shows "insert_job job db = Inr (db\<lparr>background_jobs := background_jobs db @ [job]\<rparr>)"
  using assms by (auto simp: insert_job_def used_task_ids_def)

lemma insert_job_refused:
  assumes "celery_task_id job \<in> used_task_ids db \<or>
           (\<exists>u. job_user_id job = Some u \<and> u \<notin> set (users db))"
  shows "isl (insert_job job db)"
  using assms by (auto simp: insert_job_def used_task_ids_def)

lemma ingest_try_inv:
  assumes "uuid_parse w user_id = Some u" "u \<in> set (users db)" "task_id \<notin> used_task_ids db"
  shows "try_inv (background_jobs db) (ingest_try w db task_id user_id tr)"
proof -
  define job where "job = \<lparr>job_type = ''ingest_listening_data'', celery_task_id = task_id,
                      job_user_id = Some u, status = ''running'',
                      params = [(''time_range'', tr)], job_result = [],
                      error_message = None, status_writes = [''running'']\<rparr>"
  have i: "insert_job job db = Inr (db\<lparr>background_jobs := background_jobs db @ [job]\<rparr>)"
    by (rule insert_job_accepted) (use assms in \<open>simp_all add: job_def\<close>)
  show ?thesis
    using assms(1)
    by (cases "find (\<lambda>t. token_user_id t = u) (spotify_tokens db)")
       (simp_all add: ingest_try_def UUID_def Let_def job_def[symmetric] i datetime_now_def
          commit_job_def mark_failed_def, simp_all add: job_def)
qed

lemma ingest_refused:
  assumes "uuid_parse w user_id = Some u" "u \<notin> set (users db) \<or> task_id \<in> used_task_ids db"
  shows "ingest_listening_data w db task_id user_id tr =
     (db, Inl (PendingRollbackError
                 ''This Session's transaction has been rolled back due to a previous exception during flush''))"
proof -
  define job where "job = \<lparr>job_type = ''ingest_listening_data'', celery_task_id = task_id,
                      job_user_id = Some u, status = ''running'',
                      params = [(''time_range'', tr)], job_result = [],
                      error_message = None, status_writes = [''running'']\<rparr>"
  have "isl (insert_job job db)"
    by (rule insert_job_refused) (use assms in \<open>auto simp: job_def\<close>)
  then obtain e where i: "insert_job job db = Inl e" by (cases "insert_job job db") auto
  show ?thesis
    using assms(1)
    by (simp add: ingest_listening_data_def ingest_try_def UUID_def Let_def job_def[symmetric] i
        except_handler_def)
qed

lemma ingest_no_uuid:
  "uuid_parse w user_id = None \<Longrightarrow>
   ingest_listening_data w db task_id user_id tr =
     (db, Inl (ValueError ''badly formed hexadecimal UUID string''))"
  by (simp add: ingest_listening_data_def ingest_try_def UUID_def except_handler_def)

lemma create_insight_keeps_jobs:
  "background_jobs (fst (create_insight w db snap u kind style t1 t2)) = background_jobs db"
  by (simp add: create_insight_def get_llm_client_def Let_def split: sum.splits option.splits)

lemma create_insight_jobs:
  "create_insight w db1 snap u kind style t1 t2 = (db2, r) \<Longrightarrow>
   background_jobs db2 = background_jobs db1"
  using create_insight_keeps_jobs[of w db1 snap u kind style t1 t2] by simp

lemma generate_wellness_try_inv:
  assumes "task_id \<notin> used_task_ids db"
  shows "try_inv (background_jobs db) (generate_wellness_try w db task_id sid tone)"
proof -
  define job where "job = \<lparr>job_type = ''generate_wellness_insight'', celery_task_id = task_id,
                 job_user_id = None, status = ''running'',
                 params = [(''snapshot_id'', sid), (''tone_mode'', tone)],
                 job_result = [], error_message = None, status_writes = [''running'']\<rparr>"
  have i: "insert_job job db = Inr (db\<lparr>background_jobs := background_jobs db @ [job]\<rparr>)"
    by (rule insert_job_accepted) (use assms in \<open>simp_all add: job_def\<close>)
  show ?thesis
    unfolding generate_wellness_try_def Let_def job_def[symmetric] i
    by (auto simp: UUID_def commit_job_def mark_failed_def mark_success_def job_def
        dest!: create_insight_jobs split: option.splits sum.splits prod.splits)
qed

lemma generate_roast_try_inv:
  assumes "task_id \<notin> used_task_ids db"
  shows "try_inv (background_jobs db) (generate_roast_try w db task_id sid)"
proof -
  define job where "job = \<lparr>job_type = ''generate_roast'', celery_task_id = task_id,
                 job_user_id = None, status = ''running'',
                 params = [(''snapshot_id'', sid)],
                 job_result = [], error_message = None, status_writes = [''running'']\<rparr>"
  have i: "insert_job job db = Inr (db\<lparr>background_jobs := background_jobs db @ [job]\<rparr>)"
    by (rule insert_job_accepted) (use assms in \<open>simp_all add: job_def\<close>)
  show ?thesis
    unfolding generate_roast_try_def Let_def job_def[symmetric] i
    by (auto simp: UUID_def commit_job_def mark_failed_def mark_success_def job_def
        dest!: create_insight_jobs split: option.splits sum.splits prod.splits)
qed

lemma insight_refused:
  assumes "task_id \<in> used_task_ids db"
  shows "generate_wellness_insight w db task_id sid tone =
     (db, Inl (PendingRollbackError
                 ''This Session's transaction has been rolled back due to a previous exception during flush''))"
    and "generate_roast w db task_id sid =
     (db, Inl (PendingRollbackError
                 ''This Session's transaction has been rolled back due to a previous exception during flush''))"
  using assms
  by (simp_all add: generate_wellness_insight_def generate_wellness_try_def generate_roast_def
      generate_roast_try_def insert_job_def used_task_ids_def except_handler_def Let_def)

lemma run_task_raised:
  "is_retried (run_task SpotifyTask retries (Inl e :: py_exception + 'a)) = (retries < 3)"
  "is_retried (run_task InsightTask retries (Inl e :: py_exception + 'a)) = (retries < 2)"
  by (cases e; simp add: run_task_def SpotifyTask_def InsightTask_def)+

text \<open>
  C1, amended. A run of the ingestion, wellness or roast task either leaves the store as it
  was and raises (the user id does not parse, or the store refuses the job insert because the
  task id is already used, as on every retry, or because the user has no row), or it appends
  exactly one job row. That row is born with status running (pending is never written), before
  the credential or snapshot lookup and before any call to the outside. After that only
  terminal values are written: success once when the run returns; failed once or twice, with
  the same value, when it raises. Success and failed never both occur and the final status is
  the last value written.
\<close>

theorem job_status_sequences:
  "(uuid_parse w user_id = Some u \<and> u \<in> set (users db) \<and> task_id \<notin> used_task_ids db \<longrightarrow>
      tracked_run db (ingest_listening_data w db task_id user_id tr)) \<and>
   (uuid_parse w user_id = None \<or>
    uuid_parse w user_id = Some u \<and> (u \<notin> set (users db) \<or> task_id \<in> used_task_ids db) \<longrightarrow>
      untracked_failure db (ingest_listening_data w db task_id user_id tr)) \<and>
   (task_id \<notin> used_task_ids db \<longrightarrow>
      tracked_run db (generate_wellness_insight w db task_id sid tone) \<and>
      tracked_run db (generate_roast w db task_id sid)) \<and>
   (task_id \<in> used_task_ids db \<longrightarrow>
      untracked_failure db (generate_wellness_insight w db task_id sid tone) \<and>
      untracked_failure db (generate_roast w db task_id sid))"
proof (intro conjI impI)
  assume "uuid_parse w user_id = Some u \<and> u \<in> set (users db) \<and> task_id \<notin> used_task_ids db"
  then have "try_inv (background_jobs db) (ingest_try w db task_id user_id tr)"
    using ingest_try_inv by blast
  then show "tracked_run db (ingest_listening_data w db task_id user_id tr)"
    unfolding ingest_listening_data_def by (rule except_handler_tracked)
next
  assume a: "uuid_parse w user_id = None \<or>
    uuid_parse w user_id = Some u \<and> (u \<notin> set (users db) \<or> task_id \<in> used_task_ids db)"
  show "untracked_failure db (ingest_listening_data w db task_id user_id tr)"
  proof (cases "uuid_parse w user_id")
    case None
    then show ?thesis by (simp add: ingest_no_uuid untracked_failure_def)
  next
    case (Some v)
    then have "uuid_parse w user_id = Some u" "u \<notin> set (users db) \<or> task_id \<in> used_task_ids db"
      using a by auto
    from ingest_refused[OF this] show ?thesis by (simp add: untracked_failure_def)
  qed
next
  assume "task_id \<notin> used_task_ids db"
  then show "tracked_run db (generate_wellness_insight w db task_id sid tone)"
    unfolding generate_wellness_insight_def
    by (intro except_handler_tracked generate_wellness_try_inv)
next
  assume "task_id \<notin> used_task_ids db"
  then show "tracked_run db (generate_roast w db task_id sid)"
    unfolding generate_roast_def
    by (intro except_handler_tracked generate_roast_try_inv)
next
  assume "task_id \<in> used_task_ids db"
  then show "untracked_failure db (generate_wellness_insight w db task_id sid tone)"
    by (simp add: insight_refused untracked_failure_def)
next
  assume "task_id \<in> used_task_ids db"
  then show "untracked_failure db (generate_roast w db task_id sid)"
    by (simp add: insight_refused untracked_failure_def)
qed

lemma ingest_without_token:
  "ingest_listening_data sample_world fresh_db ''task-1'' ''u1'' ''medium_term'' =
     (fresh_db\<lparr>background_jobs :=
        [\<lparr>job_type = ''ingest_listening_data'', celery_task_id = ''task-1'',
          job_user_id = Some ''u1'', status = ''failed'',
          params = [(''time_range'', ''medium_term'')], job_result = [],
          error_message = Some ''No Spotify token found for user'',
          status_writes = [''running'', ''failed'', ''failed'']\<rparr>]\<rparr>,
      Inl (ValueError ''No Spotify token found for user''))"
  by (simp add: ingest_listening_data_def ingest_try_def except_handler_def UUID_def
      sample_world_def fresh_db_def insert_job_def commit_job_def mark_failed_def Let_def)

text \<open>
  With a stored credential the expiry test itself raises: the aware column value does not
  compare with the naive clock reading, and the job row ends failed with that message.
\<close>

lemma ingest_with_token:
  "ingest_listening_data sample_world db_with_token ''task-1'' ''u1'' ''medium_term'' =
     (db_with_token\<lparr>background_jobs :=
        [\<lparr>job_type = ''ingest_listening_data'', celery_task_id = ''task-1'',
          job_user_id = Some ''u1'', status = ''failed'',
          params = [(''time_range'', ''medium_term'')], job_result = [],
          error_message =
            Some (''can'' @ [CHR 0x27] @ ''t compare offset-naive and offset-aware datetimes''),
          status_writes = [''running'', ''failed'']\<rparr>]\<rparr>,
      Inl (TypeError (''can'' @ [CHR 0x27] @ ''t compare offset-naive and offset-aware datetimes'')))"
  by (simp add: ingest_listening_data_def ingest_try_def except_handler_def UUID_def
      sample_world_def db_with_token_def fresh_db_def insert_job_def commit_job_def
      mark_failed_def datetime_now_def Let_def)

theorem job_status_sequences_witness:
  "tracked_run fresh_db
     (ingest_listening_data sample_world fresh_db ''task-1'' ''u1'' ''medium_term'') \<and>
   untracked_failure fresh_db
     (ingest_listening_data sample_world fresh_db ''task-1'' ''not-a-uuid'' ''medium_term'') \<and>
   tracked_run fresh_db
     (generate_wellness_insight sample_world fresh_db ''task-1'' ''s1'' ''neutral'') \<and>
   tracked_run fresh_db (generate_roast sample_world fresh_db ''task-1'' ''s1'') \<and>
   untracked_failure
     (fst (generate_roast sample_world fresh_db ''task-1'' ''s1''))
     (generate_roast sample_world
        (fst (generate_roast sample_world fresh_db ''task-1'' ''s1'')) ''task-1'' ''s1'')"
proof -
  have a: "uuid_parse sample_world ''u1'' = Some ''u1''" by (simp add: sample_world_def)
  have b: "uuid_parse sample_world ''not-a-uuid'' = None" by (simp add: sample_world_def)
  have c: "''u1'' \<in> set (users fresh_db)" by (simp add: fresh_db_def)
  have d: "''task-1'' \<notin> used_task_ids fresh_db" by (simp add: fresh_db_def used_task_ids_def)
  have e: "''task-1'' \<in> used_task_ids
      (fst (generate_roast sample_world fresh_db ''task-1'' ''s1''))"
    by (simp add: generate_roast_def generate_roast_try_def except_handler_def UUID_def
        sample_world_def fresh_db_def insert_job_def commit_job_def mark_failed_def Let_def
        used_task_ids_def)
  note t1 = job_status_sequences [of sample_world "''u1''" "''u1''" fresh_db "''task-1''"
      "''medium_term''" "''s1''" "''neutral''"]
  note t2 = job_status_sequences [of sample_world "''not-a-uuid''" "''u1''" fresh_db "''task-1''"
      "''medium_term''" "''s1''" "''neutral''"]
  note t3 = job_status_sequences [of sample_world "''u1''" "''u1''"
      "fst (generate_roast sample_world fresh_db ''task-1'' ''s1'')" "''task-1''"
      "''medium_term''" "''s1''" "''neutral''"]
  show ?thesis using t1 t2 t3 a b c d e by (elim conjE) (intro conjI; blast)
qed

text \<open>
  C1, as stated, fails: for a user without credential the job row's status is written as
  running, failed, failed. It never holds pending, and the terminal value is written twice: in
  the guard of the \<^verbatim>\<open>try\<close> block and again in the \<^verbatim>\<open>except\<close> clause, not in \<^verbatim>\<open>finally\<close>.
\<close>

theorem job_status_sequence_counterexample:
  "\<exists>j. new_jobs fresh_db
          (fst (ingest_listening_data sample_world fresh_db ''task-1'' ''u1'' ''medium_term'')) = [j] \<and>
        status_writes j = [''running'', ''failed'', ''failed''] \<and>
        \<not> spec_status_sequence (status_writes j)"
  unfolding ingest_without_token
  by (simp add: new_jobs_def fresh_db_def spec_status_sequence_def)

text \<open>
  C3, amended. On the first attempt (the task id is new to the job table and the user has a
  row) for a user without stored credential, the ingestion task leaves one job row, failed,
  with the message "No Spotify token found for user", and raises a \<^verbatim>\<open>ValueError\<close>. The task
  class retries on every \<^verbatim>\<open>Exception\<close>, so a retry is scheduled. A retried run keeps the task
  id: the store refuses its job insert, the run changes nothing and raises again, and it is
  retried in turn as long as fewer than 3 retries have been made.
\<close>

theorem missing_credential_failure:
  assumes "uuid_parse w user_id = Some u" and "u \<in> set (users db)"
    and "task_id \<notin> used_task_ids db"
    and "find (\<lambda>t. token_user_id t = u) (spotify_tokens db) = None"
  shows "\<exists>j. ingest_listening_data w db task_id user_id tr =
           (db\<lparr>background_jobs := background_jobs db @ [j]\<rparr>,
            Inl (ValueError ''No Spotify token found for user'')) \<and>
          status j = ''failed'' \<and>
          error_message j = Some ''No Spotify token found for user'' \<and>
          is_retried (run_task SpotifyTask 0
                        (snd (ingest_listening_data w db task_id user_id tr))) \<and>
          untracked_failure (db\<lparr>background_jobs := background_jobs db @ [j]\<rparr>)
            (ingest_listening_data w (db\<lparr>background_jobs := background_jobs db @ [j]\<rparr>)
               task_id user_id tr) \<and>
          is_retried (run_task SpotifyTask retries
                        (snd (ingest_listening_data w
                                (db\<lparr>background_jobs := background_jobs db @ [j]\<rparr>)
                                task_id user_id tr))) = (retries < 3)"
proof -
  let ?j = "\<lparr>job_type = ''ingest_listening_data'', celery_task_id = task_id,
             job_user_id = Some u, status = ''failed'', params = [(''time_range'', tr)],
             job_result = [], error_message = Some ''No Spotify token found for user'',
             status_writes = [''running'', ''failed'', ''failed'']\<rparr>"
  let ?db = "db\<lparr>background_jobs := background_jobs db @ [?j]\<rparr>"
  have r: "ingest_listening_data w db task_id user_id tr =
      (?db, Inl (ValueError ''No Spotify token found for user''))"
    using assms
    by (simp add: ingest_listening_data_def ingest_try_def except_handler_def UUID_def
        insert_job_def used_task_ids_def commit_job_def mark_failed_def Let_def)
  have "task_id \<in> used_task_ids ?db" by (simp add: used_task_ids_def)
  then have r2: "ingest_listening_data w ?db task_id user_id tr =
     (?db, Inl (PendingRollbackError
                 ''This Session's transaction has been rolled back due to a previous exception during flush''))"
    using ingest_refused[OF assms(1), of ?db task_id tr] by blast
  show ?thesis
    by (rule exI[of _ ?j]) (simp add: r r2 run_task_raised untracked_failure_def)
qed

theorem missing_credential_failure_witness:
  "\<exists>j. ingest_listening_data sample_world fresh_db ''task-1'' ''u1'' ''medium_term'' =
         (fresh_db\<lparr>background_jobs := background_jobs fresh_db @ [j]\<rparr>,
          Inl (ValueError ''No Spotify token found for user'')) \<and>
        status j = ''failed'' \<and>
        error_message j = Some ''No Spotify token found for user'' \<and>
        is_retried (run_task SpotifyTask 0
                      (snd (ingest_listening_data sample_world fresh_db ''task-1'' ''u1''
                              ''medium_term''))) \<and>
        untracked_failure (fresh_db\<lparr>background_jobs := background_jobs fresh_db @ [j]\<rparr>)
          (ingest_listening_data sample_world
             (fresh_db\<lparr>background_jobs := background_jobs fresh_db @ [j]\<rparr>)
             ''task-1'' ''u1'' ''medium_term'') \<and>
        is_retried (run_task SpotifyTask 1
                      (snd (ingest_listening_data sample_world
                              (fresh_db\<lparr>background_jobs := background_jobs fresh_db @ [j]\<rparr>)
                              ''task-1'' ''u1'' ''medium_term''))) = ((1::nat) < 3)"
proof -
  have a: "uuid_parse sample_world ''u1'' = Some ''u1''" by (simp add: sample_world_def)
  have b: "''u1'' \<in> set (users fresh_db)" by (simp add: fresh_db_def)
  have c: "''task-1'' \<notin> used_task_ids fresh_db" by (simp add: fresh_db_def used_task_ids_def)
  have d: "find (\<lambda>t. token_user_id t = ''u1'') (spotify_tokens fresh_db) = None"
    by (simp add: fresh_db_def)
  show ?thesis by (rule missing_credential_failure [OF a b c d])
qed

text \<open>
  C3, as stated, fails: the first run for a user without credential is retried.
\<close>

theorem missing_credential_retried:
  "find (\<lambda>t. token_user_id t = ''u1'') (spotify_tokens fresh_db) = None \<and>
   is_retried (run_task SpotifyTask 0
                 (snd (ingest_listening_data sample_world fresh_db ''task-1'' ''u1''
                         ''medium_term'')))"
  unfolding ingest_without_token
  by (simp add: fresh_db_def run_task_raised)

lemma wellness_missing_snapshot:
  assumes "\<forall>u. uuid_parse w sid = Some u \<longrightarrow>
             find (\<lambda>s. snapshot_id s = u) (listening_snapshots db) = None"
    and "task_id \<notin> used_task_ids db"
  shows "\<exists>j m. generate_wellness_insight w db task_id sid tone =
             (db\<lparr>background_jobs := background_jobs db @ [j]\<rparr>, Inl (ValueError m)) \<and>
           celery_task_id j = task_id \<and>
           status j = ''failed'' \<and> error_message j = Some m \<and> m \<noteq> []"
proof (cases "uuid_parse w sid")
  case None
  let ?m = "''badly formed hexadecimal UUID string''"
  let ?j = "\<lparr>job_type = ''generate_wellness_insight'', celery_task_id = task_id,
             job_user_id = None, status = ''failed'',
             params = [(''snapshot_id'', sid), (''tone_mode'', tone)], job_result = [],
             error_message = Some ?m, status_writes = [''running'', ''failed'']\<rparr>"
  have "generate_wellness_insight w db task_id sid tone =
      (db\<lparr>background_jobs := background_jobs db @ [?j]\<rparr>, Inl (ValueError ?m))"
    using None assms(2)
    by (simp add: generate_wellness_insight_def generate_wellness_try_def except_handler_def
        UUID_def insert_job_def used_task_ids_def commit_job_def mark_failed_def Let_def)
  then show ?thesis by (intro exI[of _ ?j] exI[of _ ?m]) simp
next
  case (Some u)
  let ?m = "''Snapshot not found''"
  let ?j = "\<lparr>job_type = ''generate_wellness_insight'', celery_task_id = task_id,
             job_user_id = None, status = ''failed'',
             params = [(''snapshot_id'', sid), (''tone_mode'', tone)], job_result = [],
             error_message = Some ?m, status_writes = [''running'', ''failed'', ''failed'']\<rparr>"
  have "generate_wellness_insight w db task_id sid tone =
      (db\<lparr>background_jobs := background_jobs db @ [?j]\<rparr>, Inl (ValueError ?m))"
    using Some assms
    by (simp add: generate_wellness_insight_def generate_wellness_try_def except_handler_def
        UUID_def insert_job_def used_task_ids_def commit_job_def mark_failed_def Let_def)
  then show ?thesis by (intro exI[of _ ?j] exI[of _ ?m]) simp
qed

lemma roast_missing_snapshot:
  assumes "\<forall>u. uuid_parse w sid = Some u \<longrightarrow>
             find (\<lambda>s. snapshot_id s = u) (listening_snapshots db) = None"
    and "task_id \<notin> used_task_ids db"
  shows "\<exists>j m. generate_roast w db task_id sid =
             (db\<lparr>background_jobs := background_jobs db @ [j]\<rparr>, Inl (ValueError m)) \<and>
           celery_task_id j = task_id \<and>
           status j = ''failed'' \<and> error_message j = Some m \<and> m \<noteq> []"
proof (cases "uuid_parse w sid")
  case None
  let ?m = "''badly formed hexadecimal UUID string''"
  let ?j = "\<lparr>job_type = ''generate_roast'', celery_task_id = task_id,
             job_user_id = None, status = ''failed'',
             params = [(''snapshot_id'', sid)], job_result = [],
             error_message = Some ?m, status_writes = [''running'', ''failed'']\<rparr>"
  have "generate_roast w db task_id sid =
      (db\<lparr>background_jobs := background_jobs db @ [?j]\<rparr>, Inl (ValueError ?m))"
    using None assms(2)
    by (simp add: generate_roast_def generate_roast_try_def except_handler_def
        UUID_def insert_job_def used_task_ids_def commit_job_def mark_failed_def Let_def)
  then show ?thesis by (intro exI[of _ ?j] exI[of _ ?m]) simp
next
  case (Some u)
  let ?m = "''Snapshot not found''"
  let ?j = "\<lparr>job_type = ''generate_roast'', celery_task_id = task_id,
             job_user_id = None, status = ''failed'',
             params = [(''snapshot_id'', sid)], job_result = [],
             error_message = Some ?m, status_writes = [''running'', ''failed'', ''failed'']\<rparr>"
  have "generate_roast w db task_id sid =
      (db\<lparr>background_jobs := background_jobs db @ [?j]\<rparr>, Inl (ValueError ?m))"
    using Some assms
    by (simp add: generate_roast_def generate_roast_try_def except_handler_def
        UUID_def insert_job_def used_task_ids_def commit_job_def mark_failed_def Let_def)
  then show ?thesis by (intro exI[of _ ?j] exI[of _ ?m]) simp
qed

lemma productivity_missing_snapshot:
  assumes "\<forall>u. uuid_parse w sid = Some u \<longrightarrow>
             find (\<lambda>s. snapshot_id s = u) (listening_snapshots db) = None"
  shows "\<exists>m. generate_productivity_insight w db task_id sid = (db, Inl (ValueError m))"
  using assms
  by (cases "uuid_parse w sid") (simp_all add: generate_productivity_insight_def UUID_def)

text \<open>
  C4, amended. On the first attempt (the task id is new to the job table) with a snapshot id
  that matches no stored snapshot, the wellness and roast tasks leave one new job row, failed,
  with a non-empty error string; none of the three insight tasks creates an insight row; and
  each raises an exception for which a retry is scheduled. A retried wellness or roast run
  keeps the task id, so the store refuses its job insert and the run changes nothing and
  raises again; the productivity run changes nothing either. Retries go on as long as fewer
  than 2 have been made.
\<close>

theorem missing_snapshot_failure:
  assumes "\<forall>u. uuid_parse w sid = Some u \<longrightarrow>
             find (\<lambda>s. snapshot_id s = u) (listening_snapshots db) = None"
    and "task_id \<notin> used_task_ids db"
  shows "(\<exists>j m. generate_wellness_insight w db task_id sid tone =
             (db\<lparr>background_jobs := background_jobs db @ [j]\<rparr>, Inl (ValueError m)) \<and>
           status j = ''failed'' \<and> error_message j = Some m \<and> m \<noteq> [] \<and>
           untracked_failure (db\<lparr>background_jobs := background_jobs db @ [j]\<rparr>)
             (generate_wellness_insight w (db\<lparr>background_jobs := background_jobs db @ [j]\<rparr>)
                task_id sid tone) \<and>
           is_retried (run_task InsightTask retries
                         (snd (generate_wellness_insight w
                                 (db\<lparr>background_jobs := background_jobs db @ [j]\<rparr>)
                                 task_id sid tone))) = (retries < 2)) \<and>
         (\<exists>j m. generate_roast w db task_id sid =
             (db\<lparr>background_jobs := background_jobs db @ [j]\<rparr>, Inl (ValueError m)) \<and>
           status j = ''failed'' \<and> error_message j = Some m \<and> m \<noteq> [] \<and>
           untracked_failure (db\<lparr>background_jobs := background_jobs db @ [j]\<rparr>)
             (generate_roast w (db\<lparr>background_jobs := background_jobs db @ [j]\<rparr>) task_id sid) \<and>
           is_retried (run_task InsightTask retries
                         (snd (generate_roast w
                                 (db\<lparr>background_jobs := background_jobs db @ [j]\<rparr>)
                                 task_id sid))) = (retries < 2)) \<and>
         generated_insights (fst (generate_wellness_insight w db task_id sid tone)) =
           generated_insights db \<and>
         generated_insights (fst (generate_roast w db task_id sid)) = generated_insights db \<and>
         is_retried (run_task InsightTask 0
                       (snd (generate_wellness_insight w db task_id sid tone))) \<and>
         is_retried (run_task InsightTask 0 (snd (generate_roast w db task_id sid))) \<and>
         untracked_failure db (generate_productivity_insight w db task_id sid) \<and>
         is_retried (run_task InsightTask retries
                       (snd (generate_productivity_insight w db task_id sid))) = (retries < 2)"
proof -
  from wellness_missing_snapshot[OF assms, of tone]
  obtain j1 m1 where w: "generate_wellness_insight w db task_id sid tone =
             (db\<lparr>background_jobs := background_jobs db @ [j1]\<rparr>, Inl (ValueError m1))"
    and w': "celery_task_id j1 = task_id" "status j1 = ''failed''" "error_message j1 = Some m1"
      "m1 \<noteq> []"
    by (elim exE conjE)
  from roast_missing_snapshot[OF assms]
  obtain j2 m2 where r: "generate_roast w db task_id sid =
             (db\<lparr>background_jobs := background_jobs db @ [j2]\<rparr>, Inl (ValueError m2))"
    and r': "celery_task_id j2 = task_id" "status j2 = ''failed''" "error_message j2 = Some m2"
      "m2 \<noteq> []"
    by (elim exE conjE)
  from productivity_missing_snapshot[OF assms(1), of task_id]
  obtain m3 where p: "generate_productivity_insight w db task_id sid =
    (db, Inl (ValueError m3))" by (elim exE)
  let ?db1 = "db\<lparr>background_jobs := background_jobs db @ [j1]\<rparr>"
  let ?db2 = "db\<lparr>background_jobs := background_jobs db @ [j2]\<rparr>"
  have u1: "task_id \<in> used_task_ids ?db1" using w'(1) by (simp add: used_task_ids_def)
  have u2: "task_id \<in> used_task_ids ?db2" using r'(1) by (simp add: used_task_ids_def)
  note rw = insight_refused(1)[OF u1, of w sid tone]
  note rr = insight_refused(2)[OF u2, of w sid]
  have a: "\<exists>j m. generate_wellness_insight w db task_id sid tone =
             (db\<lparr>background_jobs := background_jobs db @ [j]\<rparr>, Inl (ValueError m)) \<and>
           status j = ''failed'' \<and> error_message j = Some m \<and> m \<noteq> [] \<and>
           untracked_failure (db\<lparr>background_jobs := background_jobs db @ [j]\<rparr>)
             (generate_wellness_insight w (db\<lparr>background_jobs := background_jobs db @ [j]\<rparr>)
                task_id sid tone) \<and>
           is_retried (run_task InsightTask retries
                         (snd (generate_wellness_insight w
                                 (db\<lparr>background_jobs := background_jobs db @ [j]\<rparr>)
                                 task_id sid tone))) = (retries < 2)"
    by (intro exI[of _ j1] exI[of _ m1])
       (simp add: w w' rw run_task_raised untracked_failure_def)
  have b: "\<exists>j m. generate_roast w db task_id sid =
             (db\<lparr>background_jobs := background_jobs db @ [j]\<rparr>, Inl (ValueError m)) \<and>
           status j = ''failed'' \<and> error_message j = Some m \<and> m \<noteq> [] \<and>
           untracked_failure (db\<lparr>background_jobs := background_jobs db @ [j]\<rparr>)
             (generate_roast w (db\<lparr>background_jobs := background_jobs db @ [j]\<rparr>) task_id sid) \<and>
           is_retried (run_task InsightTask retries
                         (snd (generate_roast w
                                 (db\<lparr>background_jobs := background_jobs db @ [j]\<rparr>)
                                 task_id sid))) = (retries < 2)"
    by (intro exI[of _ j2] exI[of _ m2])
       (simp add: r r' rr run_task_raised untracked_failure_def)
  have rest: "generated_insights (fst (generate_wellness_insight w db task_id sid tone)) =
           generated_insights db \<and>
         generated_insights (fst (generate_roast w db task_id sid)) = generated_insights db \<and>
         is_retried (run_task InsightTask 0
                       (snd (generate_wellness_insight w db task_id sid tone))) \<and>
         is_retried (run_task InsightTask 0 (snd (generate_roast w db task_id sid))) \<and>
         untracked_failure db (generate_productivity_insight w db task_id sid) \<and>
         is_retried (run_task InsightTask retries
                       (snd (generate_productivity_insight w db task_id sid))) = (retries < 2)"
    unfolding w r p by (simp add: run_task_raised untracked_failure_def)
  show ?thesis by (rule conjI[OF a conjI[OF b rest]])
qed

theorem missing_snapshot_failure_witness:
  "(\<exists>j m. generate_wellness_insight sample_world fresh_db ''task-1'' ''s1'' ''neutral'' =
             (fresh_db\<lparr>background_jobs := background_jobs fresh_db @ [j]\<rparr>, Inl (ValueError m)) \<and>
           status j = ''failed'' \<and> error_message j = Some m \<and> m \<noteq> [] \<and>
           untracked_failure (fresh_db\<lparr>background_jobs := background_jobs fresh_db @ [j]\<rparr>)
             (generate_wellness_insight sample_world
                (fresh_db\<lparr>background_jobs := background_jobs fresh_db @ [j]\<rparr>)
                ''task-1'' ''s1'' ''neutral'') \<and>
           is_retried (run_task InsightTask 1
                         (snd (generate_wellness_insight sample_world
                                 (fresh_db\<lparr>background_jobs := background_jobs fresh_db @ [j]\<rparr>)
                                 ''task-1'' ''s1'' ''neutral''))) = ((1::nat) < 2)) \<and>
   generated_insights (fst (generate_roast sample_world fresh_db ''task-1'' ''s1'')) =
     generated_insights fresh_db \<and>
   untracked_failure fresh_db
     (generate_productivity_insight sample_world fresh_db ''task-1'' ''s1'')"
proof -
  have a: "\<forall>u. uuid_parse sample_world ''s1'' = Some u \<longrightarrow>
             find (\<lambda>s. snapshot_id s = u) (listening_snapshots fresh_db) = None"
    by (simp add: fresh_db_def)
  have b: "''task-1'' \<notin> used_task_ids fresh_db" by (simp add: fresh_db_def used_task_ids_def)
  show ?thesis
    using missing_snapshot_failure [OF a b, of "''neutral''" 1] by (elim conjE) (intro conjI)
qed

text \<open>
  C4, as stated, fails: the first run against a missing snapshot is retried, and the
  productivity task leaves no job row at all.
\<close>

theorem missing_snapshot_retried:
  "find (\<lambda>s. snapshot_id s = ''s1'') (listening_snapshots fresh_db) = None \<and>
   is_retried (run_task InsightTask 0
                 (snd (generate_wellness_insight sample_world fresh_db ''task-1'' ''s1''
                         ''neutral''))) \<and>
   background_jobs (fst (generate_productivity_insight sample_world fresh_db ''task-1'' ''s1'')) = []"
  by (simp add: generate_wellness_insight_def generate_wellness_try_def
      generate_productivity_insight_def except_handler_def UUID_def sample_world_def fresh_db_def
      insert_job_def commit_job_def mark_failed_def Let_def run_task_raised)

lemma productivity_never_writes_jobs:
  "background_jobs (fst (generate_productivity_insight w db task_id sid)) = background_jobs db"
  by (auto simp: generate_productivity_insight_def UUID_def
      dest!: create_insight_jobs split: option.splits sum.splits prod.splits)

text \<open>
  C5 against the code. On a stored snapshot the productivity task returns the id of the
  insight row it created and leaves the job table empty, where the roast and the wellness task
  on the same input each leave a job row in a terminal status: success for the roast, failed
  for the wellness task, whose prompt cannot be formatted.
\<close>

theorem productivity_insight_no_job_record:
  "(\<exists>i. generate_productivity_insight sample_world db_with_snapshot ''task-1'' ''s1'' =
          (db_with_snapshot\<lparr>generated_insights := [i]\<rparr>,
           Inr \<lparr>result_insight_id = insight_id i, result_for_snapshot = ''s1''\<rparr>) \<and>
        insight_kind i = PRODUCTIVITY) \<and>
   background_jobs
     (fst (generate_productivity_insight sample_world db_with_snapshot ''task-1'' ''s1'')) = [] \<and>
   map (\<lambda>j. (job_type j, status j))
     (background_jobs (fst (generate_roast sample_world db_with_snapshot ''task-1'' ''s1''))) =
     [(''generate_roast'', ''success'')] \<and>
   map (\<lambda>j. (job_type j, status j))
     (background_jobs
        (fst (generate_wellness_insight sample_world db_with_snapshot ''task-1'' ''s1''
                ''neutral''))) = [(''generate_wellness_insight'', ''failed'')]"
  by (simp add: generate_productivity_insight_def generate_wellness_insight_def
      generate_wellness_try_def generate_roast_def generate_roast_try_def except_handler_def
      create_insight_def get_llm_client_def chain_invoke_def UUID_def sample_world_def
      db_with_snapshot_def fresh_db_def sample_snapshot_def insert_job_def commit_job_def
      mark_success_def mark_failed_def Let_def)

text \<open>
  Whenever a credential is stored, the run ends at the expiry test: neither the refresh nor
  the fetches are reached, and the ingestion task does not return.
\<close>

lemma ingest_with_credential_raises:
  assumes "uuid_parse w user_id = Some u" "u \<in> set (users db)" "task_id \<notin> used_task_ids db"
    and "find (\<lambda>t. token_user_id t = u) (spotify_tokens db) = Some token_record"
  shows "snd (ingest_listening_data w db task_id user_id tr) =
     Inl (TypeError (''can'' @ [CHR 0x27] @ ''t compare offset-naive and offset-aware datetimes''))"
  using assms
  by (simp add: ingest_listening_data_def ingest_try_def except_handler_def UUID_def
      insert_job_def used_task_ids_def datetime_now_def Let_def)

lemma ingest_never_returns: "isl (snd (ingest_listening_data w db task_id user_id tr))"
proof (cases "uuid_parse w user_id")
  case None
  then show ?thesis by (simp add: ingest_no_uuid)
next
  case (Some u)
  show ?thesis
  proof (cases "u \<in> set (users db) \<and> task_id \<notin> used_task_ids db")
    case False
    then show ?thesis using ingest_refused[OF Some, of db task_id tr] by auto
  next
    case True
    show ?thesis
    proof (cases "find (\<lambda>t. token_user_id t = u) (spotify_tokens db)")
      case None
      then show ?thesis using Some True
        by (simp add: ingest_listening_data_def ingest_try_def except_handler_def UUID_def
            insert_job_def used_task_ids_def Let_def)
    next
      case (Some tok)
      then show ?thesis using ingest_with_credential_raises[of w user_id u db task_id tok tr]
          \<open>uuid_parse w user_id = Some u\<close> True by simp
    qed
  qed
qed

text \<open>The wellness task does not return either: its prompt cannot be formatted.\<close>

lemma wellness_never_returns:
  "isl (snd (generate_wellness_insight w db task_id sid tone))"
  by (simp add: generate_wellness_insight_def generate_wellness_try_def except_handler_def
      create_insight_def chain_invoke_def get_llm_client_def UUID_def insert_job_def Let_def
      split: sum.splits option.splits)

end
